theory Spec2Isabelle
  imports Main
begin

section \<open>A caching reverse proxy in front of an origin API\<close>

text \<open>
  The development embeds the worker of \<^verbatim>\<open>cloudflare_cache.js\<close> (and its older
  near-duplicate, which differs in the default TTL and in the headers it forwards):
  the hash helper, the cache-key builder and the \<^verbatim>\<open>fetch\<close> handler.

  Conventions of the embedding.
  \<^item> A JavaScript string is the list of the bytes of its UTF-8 encoding, and a byte
    buffer is the list of its bytes; both are a \<open>string\<close>. \<^verbatim>\<open>TextEncoder.encode\<close> is
    the identity, \<^verbatim>\<open>text()\<close> decodes the bytes of a body as UTF-8, and \<^verbatim>\<open>toLowerCase\<close>
    lowers the ASCII letters (the directives the worker looks for are ASCII).
  \<^item> A JavaScript number that the worker computes is \<^verbatim>\<open>NaN\<close>, an infinity or a double
    that holds an integer; every integer is rounded to the nearest double.
  \<^item> A call that may throw returns an \<open>option\<close> (\<open>None\<close>: it threw) or a sum.
  \<^item> The platform is a parameter: the SHA-256 digest, what the outbound request meets,
    the clock, the reason phrases, the text of a number beyond the safe integers, and
    the content of the R2 bucket.
\<close>

subsection \<open>Strings\<close>

definition toLowerChar :: "char \<Rightarrow> char" where
  "toLowerChar c =
     (case map_of (zip ''ABCDEFGHIJKLMNOPQRSTUVWXYZ'' ''abcdefghijklmnopqrstuvwxyz'') c of
        None \<Rightarrow> c
      | Some l \<Rightarrow> l)"

definition toLowerCase :: "string \<Rightarrow> string" where
  "toLowerCase s = map toLowerChar s"

text \<open>\<^verbatim>\<open>s.startsWith(p)\<close> and \<^verbatim>\<open>s.includes(p)\<close>.\<close>

fun startsWith :: "string \<Rightarrow> string \<Rightarrow> bool" where
  "startsWith s [] = True"
| "startsWith [] (p # ps) = False"
| "startsWith (c # cs) (p # ps) = (c = p \<and> startsWith cs ps)"

fun includes_str :: "string \<Rightarrow> string \<Rightarrow> bool" where
  "includes_str [] p = (p = [])"
| "includes_str (c # cs) p = (startsWith (c # cs) p \<or> includes_str cs p)"

text \<open>\<^verbatim>\<open>s.split('=')\<close>: the pieces between the equals signs, at least one piece.\<close>

fun split_eq :: "string \<Rightarrow> string list" where
  "split_eq [] = [[]]"
| "split_eq (c # cs) =
     (if c = CHR ''='' then [] # split_eq cs
      else (case split_eq cs of
              [] \<Rightarrow> [[c]]
            | p # ps \<Rightarrow> (c # p) # ps))"

subsection \<open>Decoding a body as UTF-8\<close>

text \<open>
  The decoder of \<^verbatim>\<open>text()\<close>: a well-formed sequence is kept, and each ill-formed one
  becomes the replacement character U+FFFD. A byte that cannot continue a sequence ends
  it and is read again as the start of the next one.
\<close>

definition replacement :: string where
  "replacement = [CHR 0xEF, CHR 0xBF, CHR 0xBD]"

definition between :: "nat \<Rightarrow> nat \<Rightarrow> char \<Rightarrow> bool" where
  "between lo hi c = (lo \<le> of_char c \<and> of_char c \<le> hi)"

fun decodeUtf8 :: "string \<Rightarrow> string" where
  "decodeUtf8 [] = []"
| "decodeUtf8 (b # bs) =
     (if between 0x00 0x7F b then b # decodeUtf8 bs
      else if between 0xC2 0xDF b then
        (case bs of
           [] \<Rightarrow> replacement
         | c # cs \<Rightarrow>
             if between 0x80 0xBF c then b # c # decodeUtf8 cs
             else replacement @ decodeUtf8 bs)
      else if between 0xE0 0xEF b then
        (case bs of
           [] \<Rightarrow> replacement
         | c # cs \<Rightarrow>
             if between (if b = CHR 0xE0 then 0xA0 else 0x80) (if b = CHR 0xED then 0x9F else 0xBF) c then
               (case cs of
                  [] \<Rightarrow> replacement
                | d # ds \<Rightarrow>
                    if between 0x80 0xBF d then b # c # d # decodeUtf8 ds
                    else replacement @ decodeUtf8 cs)
             else replacement @ decodeUtf8 bs)
      else if between 0xF0 0xF4 b then
        (case bs of
           [] \<Rightarrow> replacement
         | c # cs \<Rightarrow>
             if between (if b = CHR 0xF0 then 0x90 else 0x80) (if b = CHR 0xF4 then 0x8F else 0xBF) c then
               (case cs of
                  [] \<Rightarrow> replacement
                | d # ds \<Rightarrow>
                    if between 0x80 0xBF d then
                      (case ds of
                         [] \<Rightarrow> replacement
                       | e # es \<Rightarrow>
                           if between 0x80 0xBF e then b # c # d # e # decodeUtf8 es
                           else replacement @ decodeUtf8 ds)
                    else replacement @ decodeUtf8 cs)
             else replacement @ decodeUtf8 bs)
      else replacement @ decodeUtf8 bs)"

text \<open>A byte order mark at the start is dropped.\<close>

definition utf8Decode :: "string \<Rightarrow> string" where
  "utf8Decode bytes =
     decodeUtf8 (if startsWith bytes [CHR 0xEF, CHR 0xBB, CHR 0xBF] then drop 3 bytes else bytes)"

subsection \<open>Numbers\<close>

text \<open>
  The numbers of the worker: \<^verbatim>\<open>NaN\<close>, the two infinities, and the doubles that hold an
  integer.
\<close>

datatype number = NaN | PosInfinity | NegInfinity | Num int

text \<open>
  The double nearest to a natural number, ties to the even mantissa: below \<open>2^53\<close> every
  integer is a double, above it the 53 leading bits are kept.
\<close>

fun bitLength :: "nat \<Rightarrow> nat" where
  "bitLength n = (if n = 0 then 0 else Suc (bitLength (n div 2)))"

definition nearestDouble :: "nat \<Rightarrow> nat" where
  "nearestDouble n =
     (if n < 2 ^ 53 then n
      else let e = bitLength n - 53;
               q = n div 2 ^ e;
               r = n mod 2 ^ e;
               half = 2 ^ (e - 1)
           in if r < half \<or> (r = half \<and> even q) then q * 2 ^ e else (q + 1) * 2 ^ e)"

text \<open>The number that an integer result becomes; from \<open>2^1024\<close> on it is an infinity.\<close>

definition toNumber :: "int \<Rightarrow> number" where
  "toNumber i =
     (let m = nearestDouble (nat \<bar>i\<bar>)
      in if m \<ge> 2 ^ 1024 then (if i < 0 then NegInfinity else PosInfinity)
         else Num (if i < 0 then - int m else int m))"

text \<open>\<^verbatim>\<open>x * y\<close>, \<^verbatim>\<open>x + y\<close> and \<^verbatim>\<open>x > y\<close>.\<close>

fun times_number :: "number \<Rightarrow> number \<Rightarrow> number" where
  "times_number (Num a) (Num b) = toNumber (a * b)"
| "times_number NaN y = NaN"
| "times_number x NaN = NaN"
| "times_number (Num a) y =
     (if a = 0 then NaN else if (a < 0) = (y = NegInfinity) then PosInfinity else NegInfinity)"
| "times_number x (Num b) =
     (if b = 0 then NaN else if (b < 0) = (x = NegInfinity) then PosInfinity else NegInfinity)"
| "times_number x y = (if x = y then PosInfinity else NegInfinity)"

fun plus_number :: "number \<Rightarrow> number \<Rightarrow> number" where
  "plus_number (Num a) (Num b) = toNumber (a + b)"
| "plus_number NaN y = NaN"
| "plus_number x NaN = NaN"
| "plus_number (Num a) y = y"
| "plus_number x (Num b) = x"
| "plus_number x y = (if x = y then x else NaN)"

fun greater :: "number \<Rightarrow> number \<Rightarrow> bool" where
  "greater (Num a) (Num b) = (a > b)"
| "greater NaN y = False"
| "greater x NaN = False"
| "greater PosInfinity y = (y \<noteq> PosInfinity)"
| "greater x NegInfinity = (x \<noteq> NegInfinity)"
| "greater x y = False"

text \<open>
  \<^verbatim>\<open>new Date().getTime()\<close> for a clock that stands at \<open>t\<close> milliseconds: a time value
  is an integer of magnitude at most 8.64e15, or \<^verbatim>\<open>NaN\<close>.
\<close>

definition getTime :: "int \<Rightarrow> number" where
  "getTime t = (if \<bar>t\<bar> \<le> 8640000000000000 then Num t else NaN)"

subsection \<open>Parsing and printing integers\<close>

definition isDigit :: "char \<Rightarrow> bool" where
  "isDigit c = (c \<in> set ''0123456789'')"

definition digitValue :: "char \<Rightarrow> nat" where
  "digitValue c =
     (case map_of (zip ''0123456789abcdefABCDEF''
                       [0, 1, 2, 3, 4, 5, 6, 7, 8, 9, 10, 11, 12, 13, 14, 15, 10, 11, 12, 13, 14, 15]) c of
        None \<Rightarrow> 16
      | Some d \<Rightarrow> d)"

text \<open>
  The white space and line terminators of the language, each as its UTF-8 bytes: U+0009
  to U+000D, U+0020, U+00A0, U+1680, U+2000 to U+200A, U+2028, U+2029, U+202F, U+205F,
  U+3000 and U+FEFF.
\<close>

definition whiteSpace :: "string list" where
  "whiteSpace =
     [[CHR 0x09], [CHR 0x0A], [CHR 0x0B], [CHR 0x0C], [CHR 0x0D], [CHR 0x20],
      [CHR 0xC2, CHR 0xA0],
      [CHR 0xE1, CHR 0x9A, CHR 0x80],
      [CHR 0xE2, CHR 0x80, CHR 0x80], [CHR 0xE2, CHR 0x80, CHR 0x81], [CHR 0xE2, CHR 0x80, CHR 0x82],
      [CHR 0xE2, CHR 0x80, CHR 0x83], [CHR 0xE2, CHR 0x80, CHR 0x84], [CHR 0xE2, CHR 0x80, CHR 0x85],
      [CHR 0xE2, CHR 0x80, CHR 0x86], [CHR 0xE2, CHR 0x80, CHR 0x87], [CHR 0xE2, CHR 0x80, CHR 0x88],
      [CHR 0xE2, CHR 0x80, CHR 0x89], [CHR 0xE2, CHR 0x80, CHR 0x8A],
      [CHR 0xE2, CHR 0x80, CHR 0xA8], [CHR 0xE2, CHR 0x80, CHR 0xA9], [CHR 0xE2, CHR 0x80, CHR 0xAF],
      [CHR 0xE2, CHR 0x81, CHR 0x9F],
      [CHR 0xE3, CHR 0x80, CHR 0x80],
      [CHR 0xEF, CHR 0xBB, CHR 0xBF]]"

text \<open>The number of bytes of the white space at the head of a string, 0 when there is none.\<close>

definition leadingWhiteSpace :: "string \<Rightarrow> nat" where
  "leadingWhiteSpace s = (case find (startsWith s) whiteSpace of None \<Rightarrow> 0 | Some w \<Rightarrow> length w)"

function skipWhiteSpace :: "string \<Rightarrow> string" where
  "skipWhiteSpace s =
     (if leadingWhiteSpace s = 0 then s else skipWhiteSpace (drop (leadingWhiteSpace s) s))"
  by pat_completeness auto
termination
proof (relation "measure length")
  show "wf (measure length)" by simp
next
  fix s :: string
  assume "leadingWhiteSpace s \<noteq> 0"
  then have "s \<noteq> []"
    by (auto simp: leadingWhiteSpace_def whiteSpace_def)
  with \<open>leadingWhiteSpace s \<noteq> 0\<close> show "(drop (leadingWhiteSpace s) s, s) \<in> measure length"
    by simp
qed

text \<open>The value of a run of digits in a radix, most significant digit first.\<close>

definition digitsValue :: "nat \<Rightarrow> string \<Rightarrow> nat" where
  "digitsValue radix ds = foldl (\<lambda>acc c. acc * radix + digitValue c) 0 ds"

text \<open>
  \<^verbatim>\<open>parseInt(s)\<close> with no radix: leading white space is skipped, one sign is read, a
  \<^verbatim>\<open>0x\<close> or \<^verbatim>\<open>0X\<close> prefix selects radix 16, and the longest run of digits of the radix
  is the value, rounded to the nearest double; with no digit the result is \<^verbatim>\<open>NaN\<close>.
  What follows the digits is ignored.
\<close>

definition parseMagnitude :: "string \<Rightarrow> nat option" where
  "parseMagnitude s =
     (let hex = (startsWith s ''0x'' \<or> startsWith s ''0X'');
          radix = (if hex then 16 else 10);
          rest = (if hex then drop 2 s else s);
          ds = takeWhile (\<lambda>c. digitValue c < radix) rest
      in if ds = [] then None else Some (digitsValue radix ds))"

definition parseInt :: "string \<Rightarrow> number" where
  "parseInt str =
     (let s = skipWhiteSpace str
      in case s of
           [] \<Rightarrow> NaN
         | c # cs \<Rightarrow>
             (case (if c = CHR ''-'' \<or> c = CHR ''+'' then parseMagnitude cs else parseMagnitude s) of
                None \<Rightarrow> NaN
              | Some n \<Rightarrow> toNumber (if c = CHR ''-'' then - int n else int n)))"

text \<open>
  The decimal digits of an integer, with a minus sign below zero. This is the text of
  \<^verbatim>\<open>n.toString()\<close> for an integer of magnitude up to \<open>2^53\<close>; above, the digits that
  the runtime prints are the shortest that read back as the same double, and from
  \<open>10^21\<close> on they are in exponent form.
\<close>

definition digitChar :: "nat \<Rightarrow> char" where
  "digitChar d = ''0123456789abcdef'' ! d"

fun decimal :: "nat \<Rightarrow> string" where
  "decimal n = (if n < 10 then [digitChar n] else decimal (n div 10) @ [digitChar (n mod 10)])"

definition toString :: "int \<Rightarrow> string" where
  "toString i = (if i < 0 then CHR ''-'' # decimal (nat (- i)) else decimal (nat i))"

subsection \<open>The hash helper\<close>

text \<open>
  The argument of \<^verbatim>\<open>generateHash\<close>: a string, a buffer, or nothing
  (\<^verbatim>\<open>null\<close>, \<^verbatim>\<open>undefined\<close>).
\<close>

datatype hash_data = Text string | Buffer string | Absent

text \<open>
  \<^verbatim>\<open>b.toString(16).padStart(2, '0')\<close> of one byte, and the hexadecimal text of a
  digest.
\<close>

definition hexByte :: "char \<Rightarrow> string" where
  "hexByte b = [digitChar (of_char b div 16), digitChar (of_char b mod 16)]"

definition hexString :: "string \<Rightarrow> string" where
  "hexString digest = concat (map hexByte digest)"

text \<open>
  \<open>sha256\<close> stands for \<^verbatim>\<open>crypto.subtle.digest('SHA-256', _)\<close>, a function of the
  platform.
\<close>

definition generateHash :: "(string \<Rightarrow> string) \<Rightarrow> hash_data \<Rightarrow> string" where
  "generateHash sha256 data =
     (let buffer = (case data of Text s \<Rightarrow> Some s | Buffer b \<Rightarrow> Some b | Absent \<Rightarrow> None)
      in case buffer of
           None \<Rightarrow> ''emptybody''
         | Some b \<Rightarrow> if length b = 0 then ''emptybody'' else hexString (sha256 b))"

subsection \<open>Requests and the cache key\<close>

text \<open>
  A body stream either delivers its bytes or fails while it is read. A request with no
  body has \<open>None\<close>. \<^verbatim>\<open>arrayBuffer()\<close> reads the whole body; on a request or response
  with no body it returns an empty buffer. \<^verbatim>\<open>text()\<close> reads the body and decodes it.
\<close>

datatype stream = Bytes string | Broken

definition readAll :: "stream option \<Rightarrow> string option" where
  "readAll b = (case b of None \<Rightarrow> Some [] | Some (Bytes bs) \<Rightarrow> Some bs | Some Broken \<Rightarrow> None)"

definition readText :: "stream option \<Rightarrow> string option" where
  "readText b = map_option utf8Decode (readAll b)"

text \<open>
  \<^verbatim>\<open>new URL(request.url)\<close>, by the three components the worker reads. The URL of a
  request is valid, so the constructor does not throw.
\<close>

record url =
  href :: string
  pathname :: string
  search :: string

text \<open>
  Headers are a map from lower-case names to values: \<^verbatim>\<open>get\<close>, \<^verbatim>\<open>set\<close> and
  \<^verbatim>\<open>delete\<close> lower the name they are given.
\<close>

type_synonym headers = "string \<rightharpoonup> string"

definition headers_get :: "headers \<Rightarrow> string \<Rightarrow> string option" where
  "headers_get h name = h (toLowerCase name)"

definition headers_set :: "headers \<Rightarrow> string \<Rightarrow> string \<Rightarrow> headers" where
  "headers_set h name v = h(toLowerCase name \<mapsto> v)"

definition headers_delete :: "headers \<Rightarrow> string \<Rightarrow> headers" where
  "headers_delete h name = h(toLowerCase name := None)"

record request =
  request_method :: string
  url :: url
  headers :: headers
  body :: "stream option"

definition generateCacheKey :: "(string \<Rightarrow> string) \<Rightarrow> request \<Rightarrow> string" where
  "generateCacheKey sha256 request =
     (let key = request_method request @ '':'' @ href (url request)
      in if request_method request = ''POST'' then
           (case readAll (body request) of
              Some bodyBuffer \<Rightarrow>
                if length bodyBuffer > 0
                then key @ '':bodyHash='' @ generateHash sha256 (Buffer bodyBuffer)
                else key @ '':bodyHash=emptybody''
            | None \<Rightarrow> key @ '':bodyHash=readerror'')
         else key)"

subsection \<open>The bucket, the environment and the platform\<close>

text \<open>
  A stored value is the JSON text of \<^verbatim>\<open>{body, status, headers}\<close>. The worker writes the
  body as a string; a body that is some other JSON value is carried as its
  \<^verbatim>\<open>JSON.stringify\<close> text. The headers of an entry are the object built from
  \<^verbatim>\<open>Headers.entries()\<close>, with names and values that \<^verbatim>\<open>new Headers(_)\<close> reads back
  unchanged. The status is any integer.
\<close>

datatype json_body = JString string | JOther string

record entry =
  stored_body :: json_body
  stored_status :: int
  stored_headers :: headers

text \<open>
  An R2 object: \<open>json\<close> is what \<^verbatim>\<open>object.json()\<close> yields (\<open>None\<close>: the text does not
  parse and the call throws), \<open>customMetadata\<close> may be missing.
\<close>

record r2object =
  json :: "entry option"
  customMetadata :: "(string \<rightharpoonup> string) option"

text \<open>The bucket; \<open>get_throws\<close> is a failing read of the store.\<close>

record bucket =
  objects :: "string \<rightharpoonup> r2object"
  get_throws :: bool

record env =
  ORIGIN_API_URL :: "string option"
  API_CACHE_BUCKET :: "bucket option"
  OCP_APIM_Subscription_Key :: "string option"

record response =
  status :: int
  statusText :: string
  response_headers :: headers
  response_body :: "stream option"

record origin_request =
  origin_url :: string
  origin_method :: string
  origin_headers :: headers
  origin_body :: "stream option"

text \<open>
  What the outbound request meets. \<^verbatim>\<open>new Request(originRequestUrl, _)\<close> throws when it
  cannot build the request (an origin URL that does not parse, a header value it
  refuses); that call is outside every \<^verbatim>\<open>try\<close>. Otherwise the request is sent, and the
  outbound \<^verbatim>\<open>fetch\<close> throws an error with a message or returns the response of the
  origin.
\<close>

datatype outbound = Unconstructible | FetchThrows string | Answers response

text \<open>
  The platform: the digest; what the outbound request meets; the reason phrase that
  the \<^verbatim>\<open>Response\<close> constructor fills in for a status when it is given none; the text
  that \<^verbatim>\<open>toString\<close> gives for an integer of magnitude above \<open>2^53\<close>; what the runtime
  sends to the caller when the handler throws; and the clock when the lookup and when
  the store step read it.
\<close>

record platform =
  digest :: "string \<Rightarrow> string"
  outbound :: "origin_request \<Rightarrow> outbound"
  reason_phrase :: "int \<Rightarrow> string"
  unsafe_text :: "int \<Rightarrow> string"
  error_page :: response
  time_at_lookup :: int
  time_at_store :: int

text \<open>
  The outbound \<^verbatim>\<open>fetch\<close> of a request as a sum: \<open>Inr\<close> the response of the origin, \<open>Inl\<close>
  the message of the error. A request that cannot be built is never sent; it has no
  response here.
\<close>

definition origin :: "platform \<Rightarrow> origin_request \<Rightarrow> string + response" where
  "origin p q =
     (case outbound p q of
        Answers r \<Rightarrow> Inr r
      | FetchThrows message \<Rightarrow> Inl message
      | Unconstructible \<Rightarrow> Inl [])"

text \<open>
  The work handed to \<^verbatim>\<open>ctx.waitUntil\<close>, which runs beside the response and is not
  awaited: a \<^verbatim>\<open>put\<close> of a key with its value and custom metadata, or a \<^verbatim>\<open>delete\<close>.
\<close>

datatype task = Put string entry "string \<rightharpoonup> string" | Delete string

text \<open>
  What one call of the handler does: the response the caller gets, whether that
  response was rebuilt from the store, the keys it read from the bucket, the requests it
  sent to the origin, the tasks it handed to \<^verbatim>\<open>ctx.waitUntil\<close>, in order, and whether
  it threw. A handler that throws returns no response: the caller gets the error page
  of the runtime.
\<close>

record outcome =
  response :: response
  served_from_cache :: bool
  bucket_gets :: "string list"
  origin_fetches :: "origin_request list"
  waitUntil :: "task list"
  thrown :: bool

subsection \<open>Constants and small helpers\<close>

definition DEFAULT_CACHE_TTL_SECONDS :: int where
  "DEFAULT_CACHE_TTL_SECONDS = 2048000"

definition CACHE_CONTROL_HEADER :: string where
  "CACHE_CONTROL_HEADER = ''cf-cache-control''"

text \<open>
  \<^verbatim>\<open>n.toString()\<close> of a number. Up to \<open>2^53\<close> the text is the decimal digits; above,
  it is left to the platform.
\<close>

definition numberToString :: "platform \<Rightarrow> number \<Rightarrow> string" where
  "numberToString p n =
     (case n of
        NaN \<Rightarrow> ''NaN''
      | PosInfinity \<Rightarrow> ''Infinity''
      | NegInfinity \<Rightarrow> ''-Infinity''
      | Num i \<Rightarrow> if \<bar>i\<bar> \<le> 2 ^ 53 then toString i else unsafe_text p i)"

text \<open>
  The \<^verbatim>\<open>Response\<close> constructor, as the Workers runtime has it. It throws a
  \<^verbatim>\<open>RangeError\<close> for a status outside 200 to 599. On a status that allows no body (204,
  205, 304) it throws for a body, but takes an empty string for no body. For a string
  body it adds a content type when the headers have none. With no status text it fills
  in the reason phrase.
\<close>

definition nullBodyStatus :: "int \<Rightarrow> bool" where
  "nullBodyStatus st = (st = 101 \<or> st = 204 \<or> st = 205 \<or> st = 304)"

definition textResponse :: "platform \<Rightarrow> string \<Rightarrow> int \<Rightarrow> headers \<Rightarrow> response option" where
  "textResponse p text st h =
     (if st < 200 \<or> st > 599 then None
      else if nullBodyStatus st then
        (if text = [] then
           Some \<lparr>status = st, statusText = reason_phrase p st, response_headers = h,
                 response_body = None\<rparr>
         else None)
      else
        Some \<lparr>status = st, statusText = reason_phrase p st,
              response_headers =
                (case headers_get h ''Content-Type'' of
                   None \<Rightarrow> headers_set h ''Content-Type'' ''text/plain;charset=UTF-8''
                 | Some _ \<Rightarrow> h),
              response_body = Some (Bytes text)\<rparr>)"

definition streamResponse ::
  "stream option \<Rightarrow> int \<Rightarrow> string \<Rightarrow> headers \<Rightarrow> response option" where
  "streamResponse b st text h =
     (if st < 200 \<or> st > 599 then None
      else if nullBodyStatus st \<and> b \<noteq> None then None
      else Some \<lparr>status = st, statusText = text, response_headers = h, response_body = b\<rparr>)"

text \<open>
  The two fixed error responses of the handler and the 502 have a status that the
  constructor takes with a text.
\<close>

definition errorResponse :: "platform \<Rightarrow> string \<Rightarrow> int \<Rightarrow> response" where
  "errorResponse p text st =
     \<lparr>status = st, statusText = reason_phrase p st,
      response_headers = [''content-type'' \<mapsto> ''text/plain;charset=UTF-8''],
      response_body = Some (Bytes text)\<rparr>"

definition handleRequestHeaders :: "env \<Rightarrow> headers \<Rightarrow> headers" where
  "handleRequestHeaders env requestHeaders =
     (let headerKey1 = ''ocp-apim-subscription-key'';
          subscriptionKeyValue =
            (case OCP_APIM_Subscription_Key env of None \<Rightarrow> ''undefined'' | Some k \<Rightarrow> k);
          h1 = headers_set requestHeaders ''ocp-apim-subscription-region'' ''japaneast'';
          h2 = headers_set h1 headerKey1 subscriptionKeyValue
      in headers_delete h2 ''host'')"

text \<open>The older worker forwards the headers of the request without the host.\<close>

definition deleteHost :: "env \<Rightarrow> headers \<Rightarrow> headers" where
  "deleteHost env requestHeaders = headers_delete requestHeaders ''host''"

definition bypassCache :: "request \<Rightarrow> bool" where
  "bypassCache request =
     (map_option toLowerCase (headers_get (headers request) CACHE_CONTROL_HEADER) = Some ''no-cache'')"

definition forceCache :: "request \<Rightarrow> bool" where
  "forceCache request =
     (map_option toLowerCase (headers_get (headers request) CACHE_CONTROL_HEADER) = Some ''force-cache'')"

definition isCacheableMethod :: "request \<Rightarrow> bool" where
  "isCacheableMethod request = (request_method request = ''GET'' \<or> request_method request = ''POST'')"

subsection \<open>Step 1: the lookup\<close>

text \<open>
  \<^verbatim>\<open>expiration && new Date().getTime() > parseInt(expiration)\<close>: a missing or empty
  expiration is falsy, and a comparison with \<^verbatim>\<open>NaN\<close> is false.
\<close>

definition isExpired :: "string option \<Rightarrow> number \<Rightarrow> bool" where
  "isExpired expiration now =
     (case expiration of
        None \<Rightarrow> False
      | Some e \<Rightarrow> e \<noteq> [] \<and> greater now (parseInt e))"

text \<open>The response of a hit; \<open>None\<close> when the constructor throws.\<close>

definition bodyContent :: "entry \<Rightarrow> string" where
  "bodyContent cachedResponseData =
     (case stored_body cachedResponseData of JString s \<Rightarrow> s | JOther j \<Rightarrow> j)"

definition hitResponse :: "platform \<Rightarrow> entry \<Rightarrow> string \<Rightarrow> response option" where
  "hitResponse p cachedResponseData cacheKey =
     (let h = headers_set (headers_set (stored_headers cachedResponseData)
                  ''X-Cache-Status'' ''HIT'') ''X-Cache-Key'' cacheKey
      in textResponse p (bodyContent cachedResponseData) (stored_status cachedResponseData) h)"

text \<open>
  The \<^verbatim>\<open>try\<close> block of step 1. The result is the response of a hit, if any, and the
  tasks handed to \<^verbatim>\<open>ctx.waitUntil\<close>. A failing \<^verbatim>\<open>get\<close> or \<^verbatim>\<open>json()\<close>, and a
  \<^verbatim>\<open>Response\<close> constructor that throws, are caught and leave no response.
\<close>

definition readCache :: "platform \<Rightarrow> bucket \<Rightarrow> string \<Rightarrow> response option \<times> task list" where
  "readCache p b cacheKey =
     (if get_throws b then (None, [])
      else case objects b cacheKey of
             None \<Rightarrow> (None, [])
           | Some object \<Rightarrow>
               (case json object of
                  None \<Rightarrow> (None, [])
                | Some cachedResponseData \<Rightarrow>
                    let expiration = Option.bind (customMetadata object) (\<lambda>m. m ''expiration'')
                    in if isExpired expiration (getTime (time_at_lookup p)) then (None, [Delete cacheKey])
                       else (hitResponse p cachedResponseData cacheKey, [])))"

subsection \<open>Step 2: the request to the origin\<close>

definition originRequest ::
  "(env \<Rightarrow> headers \<Rightarrow> headers) \<Rightarrow> env \<Rightarrow> string \<Rightarrow> request \<Rightarrow> origin_request" where
  "originRequest forwardHeaders env originApiUrl request =
     \<lparr>origin_url = originApiUrl @ pathname (url request) @ search (url request),
      origin_method = request_method request,
      origin_headers = forwardHeaders env (headers request),
      origin_body = body request\<rparr>"

subsection \<open>Step 3: whether and how long to store\<close>

definition shouldCache :: "bool \<Rightarrow> bool \<Rightarrow> int \<Rightarrow> string option \<Rightarrow> string option \<Rightarrow> bool" where
  "shouldCache cacheableMethod force st cacheControl pragma =
     ((cacheableMethod \<or> force) \<and>
      st \<ge> 200 \<and> st < 300 \<and>
      (case cacheControl of
         None \<Rightarrow> True
       | Some cc \<Rightarrow> cc = [] \<or> (\<not> includes_str cc ''no-cache'' \<and> \<not> includes_str cc ''no-store'')) \<and>
      (case pragma of
         None \<Rightarrow> True
       | Some pr \<Rightarrow> pr = [] \<or> \<not> includes_str pr ''no-cache''))"

text \<open>
  \<^verbatim>\<open>cacheControl.match(/max-age=(\d+)/)\<close>: the digits of the leftmost place where
  \<^verbatim>\<open>max-age=\<close> is followed by a digit, as many as there are.
\<close>

fun matchMaxAge :: "string \<Rightarrow> string option" where
  "matchMaxAge [] = None"
| "matchMaxAge (c # cs) =
     (if startsWith (c # cs) ''max-age='' \<and> takeWhile isDigit (drop 8 (c # cs)) \<noteq> []
      then Some (takeWhile isDigit (drop 8 (c # cs)))
      else matchMaxAge cs)"

text \<open>
  The time to live, in seconds. \<^verbatim>\<open>parseInt(_) || DEFAULT\<close> takes the default for
  \<^verbatim>\<open>NaN\<close> and for zero; element 1 of the split is \<^verbatim>\<open>undefined\<close>, which parses to
  \<^verbatim>\<open>NaN\<close>, when there is none.
\<close>

definition requestTtl :: "int \<Rightarrow> string \<Rightarrow> number" where
  "requestTtl defaultTtl customTtlHeader =
     (case (case split_eq customTtlHeader of
              _ # n # _ \<Rightarrow> parseInt n
            | _ \<Rightarrow> NaN) of
        NaN \<Rightarrow> Num defaultTtl
      | Num t \<Rightarrow> if t = 0 then Num defaultTtl else Num t
      | infinity \<Rightarrow> infinity)"

definition responseTtl :: "int \<Rightarrow> string option \<Rightarrow> number" where
  "responseTtl defaultTtl cacheControl =
     (case cacheControl of
        None \<Rightarrow> Num defaultTtl
      | Some cc \<Rightarrow>
          if cc \<noteq> [] \<and> includes_str cc ''max-age='' then
            (case matchMaxAge cc of
               None \<Rightarrow> Num defaultTtl
             | Some ds \<Rightarrow> parseInt ds)
          else Num defaultTtl)"

definition ttl :: "int \<Rightarrow> string option \<Rightarrow> string option \<Rightarrow> number" where
  "ttl defaultTtl customTtlHeader cacheControl =
     (case customTtlHeader of
        None \<Rightarrow> responseTtl defaultTtl cacheControl
      | Some h \<Rightarrow>
          if h \<noteq> [] \<and> startsWith h ''max-age='' then requestTtl defaultTtl h
          else responseTtl defaultTtl cacheControl)"

text \<open>
  The \<^verbatim>\<open>try\<close> block that builds the entry and schedules the \<^verbatim>\<open>put\<close>. A body that
  cannot be read is caught and nothing is scheduled.
\<close>

definition storeResponse ::
  "platform \<Rightarrow> string \<Rightarrow> response \<Rightarrow> number \<Rightarrow> task list" where
  "storeResponse p cacheKey responseToCache seconds =
     (case readText (response_body responseToCache) of
        None \<Rightarrow> []
      | Some bodyText \<Rightarrow>
          let dataToStore = \<lparr>stored_body = JString bodyText,
                             stored_status = status responseToCache,
                             stored_headers = response_headers responseToCache\<rparr>;
              expirationTimestamp =
                plus_number (getTime (time_at_store p)) (times_number seconds (Num 1000))
          in [Put cacheKey dataToStore [''expiration'' \<mapsto> numberToString p expirationTimestamp]])"

definition cacheOriginResponse ::
  "int \<Rightarrow> platform \<Rightarrow> request \<Rightarrow> string \<Rightarrow> response \<Rightarrow> task list" where
  "cacheOriginResponse defaultTtl p request cacheKey responseToCache =
     (let cacheControl = map_option toLowerCase (headers_get (response_headers responseToCache) ''Cache-Control'');
          pragma = map_option toLowerCase (headers_get (response_headers responseToCache) ''Pragma'')
      in if shouldCache (isCacheableMethod request) (forceCache request)
                (status responseToCache) cacheControl pragma \<and> \<not> bypassCache request
         then storeResponse p cacheKey responseToCache
                (ttl defaultTtl (headers_get (headers request) CACHE_CONTROL_HEADER) cacheControl)
         else [])"

subsection \<open>Step 4 and the handler\<close>

text \<open>The response of a miss; \<open>None\<close> when the constructor throws.\<close>

definition missResponse :: "response \<Rightarrow> string \<Rightarrow> response option" where
  "missResponse responseToReturn cacheKey =
     streamResponse (response_body responseToReturn) (status responseToReturn)
       (statusText responseToReturn)
       (headers_set (headers_set (response_headers responseToReturn)
          ''X-Cache-Status'' ''MISS'') ''X-Cache-Key'' cacheKey)"

text \<open>
  Steps 2 to 4. \<open>gets\<close> and \<open>tasks\<close> are what step 1 has read and scheduled before.
  When the request cannot be built the handler throws before anything is sent. When
  the constructor of step 4 throws, the handler throws after the request was sent and
  the \<^verbatim>\<open>put\<close> scheduled.
\<close>

definition forwardToOrigin ::
  "int \<Rightarrow> (env \<Rightarrow> headers \<Rightarrow> headers) \<Rightarrow> platform \<Rightarrow> env \<Rightarrow> string \<Rightarrow> request \<Rightarrow> string \<Rightarrow>
   string list \<Rightarrow> task list \<Rightarrow> outcome" where
  "forwardToOrigin defaultTtl forwardHeaders p env originApiUrl request cacheKey gets tasks =
     (let originReq = originRequest forwardHeaders env originApiUrl request
      in case outbound p originReq of
           Unconstructible \<Rightarrow>
             \<lparr>response = error_page p, served_from_cache = False, bucket_gets = gets,
              origin_fetches = [], waitUntil = tasks, thrown = True\<rparr>
         | FetchThrows message \<Rightarrow>
             \<lparr>response = errorResponse p (''Failed to fetch from origin: '' @ message) 502,
              served_from_cache = False, bucket_gets = gets,
              origin_fetches = [originReq], waitUntil = tasks, thrown = False\<rparr>
         | Answers originResponse \<Rightarrow>
             (case missResponse originResponse cacheKey of
                None \<Rightarrow>
                  \<lparr>response = error_page p, served_from_cache = False, bucket_gets = gets,
                   origin_fetches = [originReq],
                   waitUntil = tasks @ cacheOriginResponse defaultTtl p request cacheKey originResponse,
                   thrown = True\<rparr>
              | Some finalResponse \<Rightarrow>
                  \<lparr>response = finalResponse, served_from_cache = False, bucket_gets = gets,
                   origin_fetches = [originReq],
                   waitUntil = tasks @ cacheOriginResponse defaultTtl p request cacheKey originResponse,
                   thrown = False\<rparr>))"

text \<open>
  The handler, for a default TTL and a way to build the forwarded headers: the two
  workers are its two instances below.
\<close>

definition fetch_handler ::
  "int \<Rightarrow> (env \<Rightarrow> headers \<Rightarrow> headers) \<Rightarrow> platform \<Rightarrow> env \<Rightarrow> request \<Rightarrow> outcome" where
  "fetch_handler defaultTtl forwardHeaders p env request =
     (case ORIGIN_API_URL env of
        None \<Rightarrow>
          \<lparr>response = errorResponse p ''Origin API URL not configured'' 500,
           served_from_cache = False, bucket_gets = [], origin_fetches = [], waitUntil = [],
           thrown = False\<rparr>
      | Some originApiUrl \<Rightarrow>
          if originApiUrl = [] then
            \<lparr>response = errorResponse p ''Origin API URL not configured'' 500,
             served_from_cache = False, bucket_gets = [], origin_fetches = [], waitUntil = [],
             thrown = False\<rparr>
          else
            (case API_CACHE_BUCKET env of
               None \<Rightarrow>
                 \<lparr>response = errorResponse p ''R2 Bucket not bound'' 500,
                  served_from_cache = False, bucket_gets = [], origin_fetches = [], waitUntil = [],
                  thrown = False\<rparr>
             | Some b \<Rightarrow>
                 let cacheKey = generateCacheKey (digest p) request
                 in if \<not> bypassCache request \<and> isCacheableMethod request then
                      (case readCache p b cacheKey of
                         (Some hit, tasks) \<Rightarrow>
                           \<lparr>response = hit, served_from_cache = True, bucket_gets = [cacheKey],
                            origin_fetches = [], waitUntil = tasks, thrown = False\<rparr>
                       | (None, tasks) \<Rightarrow>
                           forwardToOrigin defaultTtl forwardHeaders p env originApiUrl request cacheKey
                             [cacheKey] tasks)
                    else forwardToOrigin defaultTtl forwardHeaders p env originApiUrl request cacheKey
                           [] []))"

text \<open>The worker of \<^verbatim>\<open>cloudflare_cache.js\<close>.\<close>

definition fetch :: "platform \<Rightarrow> env \<Rightarrow> request \<Rightarrow> outcome" where
  "fetch = fetch_handler DEFAULT_CACHE_TTL_SECONDS handleRequestHeaders"

text \<open>The older worker: a default TTL of 360000 seconds, no subscription headers.\<close>

definition fetch_older :: "platform \<Rightarrow> env \<Rightarrow> request \<Rightarrow> outcome" where
  "fetch_older = fetch_handler 360000 deleteHost"

subsection \<open>The background tasks on the bucket\<close>

fun runTask :: "bucket \<Rightarrow> task \<Rightarrow> bucket" where
  "runTask b (Put k v meta) = b\<lparr>objects := (objects b)(k \<mapsto> \<lparr>json = Some v, customMetadata = Some meta\<rparr>)\<rparr>"
| "runTask b (Delete k) = b\<lparr>objects := (objects b)(k := None)\<rparr>"

definition runTasks :: "bucket \<Rightarrow> task list \<Rightarrow> bucket" where
  "runTasks b ts = foldl runTask b ts"

text \<open>The environment whose bucket has no object under a key.\<close>

definition withoutObject :: "env \<Rightarrow> string \<Rightarrow> env" where
  "withoutObject env k =
     env\<lparr>API_CACHE_BUCKET :=
           map_option (\<lambda>b. b\<lparr>objects := (objects b)(k := None)\<rparr>) (API_CACHE_BUCKET env)\<rparr>"

text \<open>A task that writes an entry.\<close>

definition isPut :: "task \<Rightarrow> bool" where
  "isPut t = (case t of Put k v m \<Rightarrow> True | Delete k \<Rightarrow> False)"

subsection \<open>Sample data\<close>

definition sampleUrl :: url where
  "sampleUrl = \<lparr>href = ''https://proxy.example/widgets/1?full=1'',
                 pathname = ''/widgets/1'', search = ''?full=1''\<rparr>"

definition sampleGet :: request where
  "sampleGet = \<lparr>request_method = ''GET'', url = sampleUrl, headers = Map.empty, body = None\<rparr>"

definition samplePost :: request where
  "samplePost = \<lparr>request_method = ''POST'', url = sampleUrl, headers = Map.empty, body = Some (Bytes [])\<rparr>"

definition emptyBucket :: bucket where
  "emptyBucket = \<lparr>objects = Map.empty, get_throws = False\<rparr>"

definition sampleEnv :: "bucket \<Rightarrow> env" where
  "sampleEnv b = \<lparr>ORIGIN_API_URL = Some ''https://origin.example'', API_CACHE_BUCKET = Some b,
                  OCP_APIM_Subscription_Key = Some ''secret''\<rparr>"

definition sampleErrorPage :: response where
  "sampleErrorPage = \<lparr>status = 500, statusText = ''Internal Server Error'',
                       response_headers = Map.empty, response_body = None\<rparr>"

text \<open>
  A platform whose origin is given as a sum: \<open>Inl\<close> the message that the outbound
  \<^verbatim>\<open>fetch\<close> throws, \<open>Inr\<close> the response.
\<close>

definition samplePlatform :: "(origin_request \<Rightarrow> string + response) \<Rightarrow> int \<Rightarrow> platform" where
  "samplePlatform org now =
     \<lparr>digest = (\<lambda>b. [CHR 0x2A]),
      outbound = (\<lambda>q. case org q of Inl message \<Rightarrow> FetchThrows message | Inr r \<Rightarrow> Answers r),
      reason_phrase = (\<lambda>st. []),
      unsafe_text = (\<lambda>i. []),
      error_page = sampleErrorPage,
      time_at_lookup = now, time_at_store = now\<rparr>"

definition sampleKey :: string where
  "sampleKey = ''GET:https://proxy.example/widgets/1?full=1''"

definition sampleEntry :: entry where
  "sampleEntry = \<lparr>stored_body = JString ''{\"id\":1}'', stored_status = 200,
                   stored_headers = [''content-type'' \<mapsto> ''application/json'']\<rparr>"

text \<open>A bucket that holds an entry under the sample key, with the given metadata.\<close>

definition bucketOf :: "entry \<Rightarrow> (string \<rightharpoonup> string) option \<Rightarrow> bucket" where
  "bucketOf e meta =
     \<lparr>objects = [sampleKey \<mapsto> \<lparr>json = Some e, customMetadata = meta\<rparr>], get_throws = False\<rparr>"

definition bucketWith :: "(string \<rightharpoonup> string) option \<Rightarrow> bucket" where
  "bucketWith meta = bucketOf sampleEntry meta"

definition okResponse :: response where
  "okResponse = \<lparr>status = 200, statusText = ''OK'',
                  response_headers = [''content-type'' \<mapsto> ''application/json''],
                  response_body = Some (Bytes ''{\"id\":1}'')\<rparr>"

definition okPlatform :: platform where
  "okPlatform = samplePlatform (\<lambda>q. Inr okResponse) 1000"

text \<open>
  A platform that builds the outbound request only for an absolute \<^verbatim>\<open>http\<close> or
  \<^verbatim>\<open>https\<close> URL, and an environment whose origin URL is not one.
\<close>

definition checkingPlatform :: platform where
  "checkingPlatform =
     okPlatform\<lparr>outbound :=
       (\<lambda>q. if startsWith (origin_url q) ''http://'' \<or> startsWith (origin_url q) ''https://''
            then Answers okResponse else Unconstructible)\<rparr>"

definition unparsableEnv :: "bucket \<Rightarrow> env" where
  "unparsableEnv b = (sampleEnv b)\<lparr>ORIGIN_API_URL := Some ''not a url''\<rparr>"

definition noStoreResponse :: response where
  "noStoreResponse = \<lparr>status = 200, statusText = ''OK'',
      response_headers = [''cache-control'' \<mapsto> ''private, No-Store''],
      response_body = Some (Bytes ''{}'')\<rparr>"

definition forceRequest :: request where
  "forceRequest = sampleGet\<lparr>request_method := ''PUT'',
                             headers := [''cf-cache-control'' \<mapsto> ''force-cache'']\<rparr>"


definition bypassRequest :: request where
  "bypassRequest = sampleGet\<lparr>headers := [''cf-cache-control'' \<mapsto> ''No-Cache'']\<rparr>"

definition failingPlatform :: platform where
  "failingPlatform = samplePlatform (\<lambda>q. Inl ''connection refused'') 1000"

definition helloResponse :: response where
  "helloResponse = \<lparr>status = 201, statusText = ''Created'',
                     response_headers = [''content-type'' \<mapsto> ''text/plain''],
                     response_body = Some (Bytes ''hello'')\<rparr>"

definition maxAgeRequest :: request where
  "maxAgeRequest = sampleGet\<lparr>headers := [''cf-cache-control'' \<mapsto> ''max-age=60'']\<rparr>"

definition helloPlatform :: platform where
  "helloPlatform = samplePlatform (\<lambda>q. Inr helloResponse) 1000"


section \<open>Properties\<close>

declare skipWhiteSpace.simps [simp del] bitLength.simps [simp del] decimal.simps [simp del]

lemmas sample_defs =
  sampleUrl_def sampleGet_def samplePost_def emptyBucket_def sampleEnv_def samplePlatform_def
  sampleKey_def sampleEntry_def bucketWith_def bucketOf_def okResponse_def okPlatform_def

lemma lower_names:
  "toLowerCase ''X-Cache-Status'' = ''x-cache-status''"
  "toLowerCase ''X-Cache-Key'' = ''x-cache-key''"
  "toLowerCase ''Content-Type'' = ''content-type''"
  "toLowerCase ''Cache-Control'' = ''cache-control''"
  "toLowerCase ''Pragma'' = ''pragma''"
  "toLowerCase ''host'' = ''host''"
  "toLowerCase ''ocp-apim-subscription-key'' = ''ocp-apim-subscription-key''"
  "toLowerCase ''ocp-apim-subscription-region'' = ''ocp-apim-subscription-region''"
  "toLowerCase CACHE_CONTROL_HEADER = ''cf-cache-control''"
  by (simp_all add: toLowerCase_def toLowerChar_def CACHE_CONTROL_HEADER_def)

lemma sampleGet_facts:
  "generateCacheKey (digest (samplePlatform org now)) sampleGet = sampleKey"
  "\<not> bypassCache sampleGet" "\<not> forceCache sampleGet" "isCacheableMethod sampleGet"
  by (simp_all add: generateCacheKey_def bypassCache_def forceCache_def isCacheableMethod_def
        headers_get_def sample_defs)

lemma sampleEnv_facts:
  "ORIGIN_API_URL (sampleEnv b) = Some ''https://origin.example''"
  "API_CACHE_BUCKET (sampleEnv b) = Some b"
  "''https://origin.example'' \<noteq> []"
  by (simp_all add: sampleEnv_def)

lemma unparsableEnv_facts:
  "ORIGIN_API_URL (unparsableEnv b) = Some ''not a url''"
  "API_CACHE_BUCKET (unparsableEnv b) = Some b"
  "''not a url'' \<noteq> []"
  by (simp_all add: unparsableEnv_def sampleEnv_def)

lemma checkingPlatform_facts:
  "generateCacheKey (digest checkingPlatform) sampleGet = sampleKey"
  "getTime (time_at_lookup checkingPlatform) = Num 1000"
  "outbound checkingPlatform (originRequest fh (unparsableEnv b) ''not a url'' sampleGet) = Unconstructible"
  by (simp_all add: checkingPlatform_def okPlatform_def generateCacheKey_def originRequest_def
        getTime_def sample_defs)

lemma bucketOf_facts:
  "\<not> get_throws (bucketOf e meta)"
  "objects (bucketOf e meta) sampleKey = Some \<lparr>json = Some e, customMetadata = meta\<rparr>"
  by (simp_all add: bucketOf_def)

lemma bucketWith_facts:
  "\<not> get_throws (bucketWith meta)"
  "objects (bucketWith meta) sampleKey = Some \<lparr>json = Some sampleEntry, customMetadata = meta\<rparr>"
  by (simp_all add: bucketWith_def bucketOf_facts)

lemma samplePlatform_origin: "origin (samplePlatform org now) q = org q"
  by (simp add: origin_def samplePlatform_def split: sum.splits)

subsection \<open>The outbound request\<close>

lemma origin_Inr: "origin p q = Inr r \<longleftrightarrow> outbound p q = Answers r"
  by (simp add: origin_def split: outbound.splits)

lemma origin_Inl:
  "origin p q = Inl message \<longleftrightarrow>
     outbound p q = FetchThrows message \<or> (outbound p q = Unconstructible \<and> message = [])"
  by (auto simp: origin_def split: outbound.splits)

text \<open>The fixed error responses are what the constructor builds.\<close>

lemma errorResponse_built:
  "200 \<le> st \<Longrightarrow> st \<le> 599 \<Longrightarrow> \<not> nullBodyStatus st \<Longrightarrow>
     textResponse p text st Map.empty = Some (errorResponse p text st)"
  by (simp add: textResponse_def errorResponse_def headers_get_def headers_set_def lower_names)

subsection \<open>The cache key\<close>

lemma length_hexString: "length (hexString d) = 2 * length d"
  by (induction d) (simp_all add: hexString_def hexByte_def)

lemma hexString_not_emptybody: "hexString d \<noteq> ''emptybody''"
proof
  assume "hexString d = ''emptybody''"
  then have "length (hexString d) = 9" by simp
  then have "2 * length d = 9" by (simp add: length_hexString)
  then show False by presburger
qed

text \<open>
  C5. The key is a function of the method, the URL and the body alone: two requests
  that agree on them (and may differ in their headers) get the same key. The key is
  \<^verbatim>\<open>{METHOD}:{URL}\<close>, followed by \<^verbatim>\<open>:bodyHash=\<close> and the hexadecimal digest of the body,
  or the sentinel \<^verbatim>\<open>emptybody\<close> or \<^verbatim>\<open>readerror\<close>, exactly when the method is POST.
\<close>

theorem cache_key_deterministic:
  assumes "request_method r1 = request_method r2" and "href (url r1) = href (url r2)" and "body r1 = body r2"
  shows "generateCacheKey sha r1 = generateCacheKey sha r2
       \<and> generateCacheKey sha r1
          = request_method r1 @ '':'' @ href (url r1) @
            (if request_method r1 = ''POST''
             then '':bodyHash='' @
                  (case readAll (body r1) of
                     None \<Rightarrow> ''readerror''
                   | Some b \<Rightarrow> if b = [] then ''emptybody'' else hexString (sha b))
             else [])"
  using assms by (simp add: generateCacheKey_def generateHash_def split: option.splits)

theorem cache_key_deterministic_witness:
  "request_method sampleGet = request_method (sampleGet\<lparr>headers := [''accept'' \<mapsto> ''*/*'']\<rparr>)
   \<and> generateCacheKey (\<lambda>b. [CHR 0x2A]) sampleGet
       = generateCacheKey (\<lambda>b. [CHR 0x2A]) (sampleGet\<lparr>headers := [''accept'' \<mapsto> ''*/*'']\<rparr>)
   \<and> generateCacheKey (\<lambda>b. [CHR 0x2A]) sampleGet = ''GET:https://proxy.example/widgets/1?full=1''
   \<and> generateCacheKey (\<lambda>b. [CHR 0x2A]) (samplePost\<lparr>body := Some (Bytes ''q'')\<rparr>)
       = ''POST:https://proxy.example/widgets/1?full=1:bodyHash=2a''"
  using cache_key_deterministic
          [of sampleGet "sampleGet\<lparr>headers := [''accept'' \<mapsto> ''*/*'']\<rparr>" "\<lambda>b. [CHR 0x2A]"]
        cache_key_deterministic
          [of "samplePost\<lparr>body := Some (Bytes ''q'')\<rparr>" "samplePost\<lparr>body := Some (Bytes ''q'')\<rparr>"
              "\<lambda>b. [CHR 0x2A]"]
  by (auto simp: sample_defs readAll_def hexString_def hexByte_def digitChar_def)

text \<open>
  C6. A POST request whose body is absent or has no bytes gets a key that ends in
  \<^verbatim>\<open>:bodyHash=emptybody\<close>. The hash helper returns \<^verbatim>\<open>emptybody\<close> for an empty string,
  an empty buffer and a missing argument, and that sentinel is not the hexadecimal
  digest of the empty input, whatever the digest is.
\<close>

theorem emptybody_sentinel:
  "(request_method request = ''POST'' \<and> (body request = None \<or> body request = Some (Bytes [])) \<longrightarrow>
      generateCacheKey sha request
        = request_method request @ '':'' @ href (url request) @ '':bodyHash=emptybody'')
   \<and> generateHash sha (Text []) = ''emptybody''
   \<and> generateHash sha (Buffer []) = ''emptybody''
   \<and> generateHash sha Absent = ''emptybody''
   \<and> hexString (sha []) \<noteq> ''emptybody''"
  by (auto simp: generateCacheKey_def generateHash_def readAll_def hexString_not_emptybody)

theorem emptybody_sentinel_witness:
  "request_method samplePost = ''POST'' \<and> body samplePost = Some (Bytes [])
   \<and> generateCacheKey (\<lambda>b. [CHR 0x2A]) samplePost
       = ''POST:https://proxy.example/widgets/1?full=1:bodyHash=emptybody''
   \<and> generateHash (\<lambda>b. [CHR 0x2A]) (Buffer []) = ''emptybody''
   \<and> hexString [CHR 0x2A] \<noteq> ''emptybody''"
  using emptybody_sentinel [of samplePost "\<lambda>b. [CHR 0x2A]"]
  by (simp add: sample_defs)

subsection \<open>The paths through the handler\<close>

lemma fetch_handler_expired:
  assumes "ORIGIN_API_URL env = Some originApiUrl" and "originApiUrl \<noteq> []"
      and "API_CACHE_BUCKET env = Some b"
      and "\<not> bypassCache request" and "isCacheableMethod request"
      and "\<not> get_throws b"
      and "objects b (generateCacheKey (digest p) request) = Some object"
      and "json object = Some e"
      and "isExpired (Option.bind (customMetadata object) (\<lambda>m. m ''expiration''))
             (getTime (time_at_lookup p))"
  shows "fetch_handler d fh p env request
         = forwardToOrigin d fh p env originApiUrl request (generateCacheKey (digest p) request)
             [generateCacheKey (digest p) request] [Delete (generateCacheKey (digest p) request)]"
  using assms by (simp add: fetch_handler_def readCache_def Let_def)

lemma fetch_handler_absent:
  assumes "ORIGIN_API_URL env = Some originApiUrl" and "originApiUrl \<noteq> []"
      and "API_CACHE_BUCKET env = Some b"
      and "\<not> bypassCache request" and "isCacheableMethod request"
      and "\<not> get_throws b"
      and "objects b (generateCacheKey (digest p) request) = None"
  shows "fetch_handler d fh p env request
         = forwardToOrigin d fh p env originApiUrl request (generateCacheKey (digest p) request)
             [generateCacheKey (digest p) request] []"
  using assms by (simp add: fetch_handler_def readCache_def Let_def)

lemma fetch_handler_valid:
  assumes "ORIGIN_API_URL env = Some originApiUrl" and "originApiUrl \<noteq> []"
      and "API_CACHE_BUCKET env = Some b"
      and "\<not> bypassCache request" and "isCacheableMethod request"
      and "\<not> get_throws b"
      and "objects b (generateCacheKey (digest p) request) = Some object"
      and "json object = Some e"
      and "\<not> isExpired (Option.bind (customMetadata object) (\<lambda>m. m ''expiration''))
               (getTime (time_at_lookup p))"
      and "hitResponse p e (generateCacheKey (digest p) request) = Some hit"
  shows "fetch_handler d fh p env request
         = \<lparr>response = hit, served_from_cache = True,
            bucket_gets = [generateCacheKey (digest p) request], origin_fetches = [], waitUntil = [],
            thrown = False\<rparr>"
  using assms by (simp add: fetch_handler_def readCache_def Let_def)


lemma fetch_handler_skip:
  assumes "ORIGIN_API_URL env = Some originApiUrl" and "originApiUrl \<noteq> []"
      and "API_CACHE_BUCKET env = Some b"
      and "bypassCache request \<or> \<not> isCacheableMethod request"
  shows "fetch_handler d fh p env request
         = forwardToOrigin d fh p env originApiUrl request (generateCacheKey (digest p) request) [] []"
  using assms by (auto simp add: fetch_handler_def Let_def)

lemma fetch_handler_unconfigured:
  assumes "ORIGIN_API_URL env = None \<or> ORIGIN_API_URL env = Some [] \<or> API_CACHE_BUCKET env = None"
  shows "\<not> served_from_cache (fetch_handler d fh p env request)
       \<and> origin_fetches (fetch_handler d fh p env request) = []
       \<and> status (response (fetch_handler d fh p env request)) = 500
       \<and> \<not> thrown (fetch_handler d fh p env request)"
  using assms by (auto simp: fetch_handler_def errorResponse_def split: option.splits)

text \<open>What the forwarding steps do, by what the outbound request meets.\<close>

lemma forwardToOrigin_fields:
  "served_from_cache (forwardToOrigin d fh p env u request k gets tasks) = False"
  "bucket_gets (forwardToOrigin d fh p env u request k gets tasks) = gets"
  "origin_fetches (forwardToOrigin d fh p env u request k gets tasks)
     = (if outbound p (originRequest fh env u request) = Unconstructible then []
        else [originRequest fh env u request])"
  by (simp_all add: forwardToOrigin_def Let_def split: outbound.splits option.splits)

lemma forwardToOrigin_unbuilt:
  assumes "outbound p (originRequest fh env u request) = Unconstructible"
  shows "forwardToOrigin d fh p env u request k gets tasks
         = \<lparr>response = error_page p, served_from_cache = False, bucket_gets = gets,
            origin_fetches = [], waitUntil = tasks, thrown = True\<rparr>"
  using assms by (simp add: forwardToOrigin_def)

lemma forwardToOrigin_failed:
  assumes "outbound p (originRequest fh env u request) = FetchThrows message"
  shows "forwardToOrigin d fh p env u request k gets tasks
         = \<lparr>response = errorResponse p (''Failed to fetch from origin: '' @ message) 502,
            served_from_cache = False, bucket_gets = gets,
            origin_fetches = [originRequest fh env u request], waitUntil = tasks, thrown = False\<rparr>"
  using assms by (simp add: forwardToOrigin_def)

lemma forwardToOrigin_answered:
  assumes "outbound p (originRequest fh env u request) = Answers r"
  shows "waitUntil (forwardToOrigin d fh p env u request k gets tasks)
           = tasks @ cacheOriginResponse d p request k r"
    and "origin_fetches (forwardToOrigin d fh p env u request k gets tasks)
           = [originRequest fh env u request]"
    and "thrown (forwardToOrigin d fh p env u request k gets tasks) = (missResponse r k = None)"
    and "missResponse r k = Some final \<Longrightarrow>
           response (forwardToOrigin d fh p env u request k gets tasks) = final"
  using assms by (simp_all add: forwardToOrigin_def Let_def split: option.splits)

text \<open>The tasks of step 1 come first; nothing else of the outcome depends on them.\<close>

lemma forwardToOrigin_tasks:
  "forwardToOrigin d fh p env u request k gets tasks
   = (forwardToOrigin d fh p env u request k gets [])
       \<lparr>waitUntil := tasks @ waitUntil (forwardToOrigin d fh p env u request k gets [])\<rparr>"
  by (simp add: forwardToOrigin_def Let_def split: outbound.splits option.splits)

lemma fetch_handler_configured:
  assumes "ORIGIN_API_URL env = Some originApiUrl" and "originApiUrl \<noteq> []"
      and "API_CACHE_BUCKET env = Some b"
  shows "(served_from_cache (fetch_handler d fh p env request)
            \<and> origin_fetches (fetch_handler d fh p env request) = []
            \<and> waitUntil (fetch_handler d fh p env request) = []
            \<and> \<not> thrown (fetch_handler d fh p env request))
       \<or> (\<exists>gets tasks. fetch_handler d fh p env request
             = forwardToOrigin d fh p env originApiUrl request (generateCacheKey (digest p) request) gets tasks
           \<and> (tasks = [] \<or> tasks = [Delete (generateCacheKey (digest p) request)]))"
  using assms
  by (auto simp: fetch_handler_def readCache_def Let_def split: option.splits)


subsection \<open>Failure of the origin\<close>

text \<open>
  C9. When the request is sent to the origin and the outbound fetch throws, the caller
  gets status 502 with a body that carries the message of the failure, and no
  \<^verbatim>\<open>put\<close> is handed to \<^verbatim>\<open>ctx.waitUntil\<close>. The handler does not throw.
\<close>

theorem origin_failure_502:
  assumes "origin_fetches (fetch_handler d fh p env request) = [q]"
      and "origin p q = Inl message"
  shows "status (response (fetch_handler d fh p env request)) = 502
       \<and> response_body (response (fetch_handler d fh p env request))
           = Some (Bytes (''Failed to fetch from origin: '' @ message))
       \<and> filter isPut (waitUntil (fetch_handler d fh p env request)) = []
       \<and> \<not> thrown (fetch_handler d fh p env request)"
proof (cases "ORIGIN_API_URL env = None \<or> ORIGIN_API_URL env = Some [] \<or> API_CACHE_BUCKET env = None")
  case True
  from fetch_handler_unconfigured [OF this, of d fh p request] assms(1)
  show ?thesis by simp
next
  case False
  then obtain u b where cfg: "ORIGIN_API_URL env = Some u" "u \<noteq> []" "API_CACHE_BUCKET env = Some b"
    by auto
  from fetch_handler_configured [OF cfg, of d fh p request] assms(1)
  obtain gets tasks where
    fwd: "fetch_handler d fh p env request
          = forwardToOrigin d fh p env u request (generateCacheKey (digest p) request) gets tasks"
    and tasks: "tasks = [] \<or> tasks = [Delete (generateCacheKey (digest p) request)]"
    by auto
  from assms(1) have sent: "outbound p (originRequest fh env u request) \<noteq> Unconstructible"
    and q: "q = originRequest fh env u request"
    unfolding fwd by (simp_all add: forwardToOrigin_fields split: if_splits)
  with assms(2) have "outbound p (originRequest fh env u request) = FetchThrows message"
    by (simp add: origin_Inl)
  from forwardToOrigin_failed [OF this] tasks show ?thesis
    unfolding fwd by (auto simp: errorResponse_def isPut_def)
qed

theorem origin_failure_502_witness:
  "origin_fetches (fetch (samplePlatform (\<lambda>q. Inl ''connection refused'') 1000)
      (sampleEnv emptyBucket) sampleGet)
     = [originRequest handleRequestHeaders (sampleEnv emptyBucket) ''https://origin.example'' sampleGet]
   \<and> status (response (fetch (samplePlatform (\<lambda>q. Inl ''connection refused'') 1000)
        (sampleEnv emptyBucket) sampleGet)) = 502
   \<and> response_body (response (fetch (samplePlatform (\<lambda>q. Inl ''connection refused'') 1000)
        (sampleEnv emptyBucket) sampleGet))
       = Some (Bytes ''Failed to fetch from origin: connection refused'')
   \<and> waitUntil (fetch (samplePlatform (\<lambda>q. Inl ''connection refused'') 1000)
        (sampleEnv emptyBucket) sampleGet) = []"
proof -
  let ?p = "samplePlatform (\<lambda>q. Inl ''connection refused'') 1000"
  let ?q = "originRequest handleRequestHeaders (sampleEnv emptyBucket) ''https://origin.example'' sampleGet"
  have out: "outbound ?p ?q = FetchThrows ''connection refused''"
    by (simp add: samplePlatform_def)
  have run: "fetch_handler DEFAULT_CACHE_TTL_SECONDS handleRequestHeaders ?p (sampleEnv emptyBucket) sampleGet
        = forwardToOrigin DEFAULT_CACHE_TTL_SECONDS handleRequestHeaders ?p (sampleEnv emptyBucket)
            ''https://origin.example'' sampleGet (generateCacheKey (digest ?p) sampleGet)
            [generateCacheKey (digest ?p) sampleGet] []"
    by (intro fetch_handler_absent [where b = emptyBucket])
       (simp_all add: sampleEnv_facts sampleGet_facts emptyBucket_def)
  have sent: "origin_fetches (fetch_handler DEFAULT_CACHE_TTL_SECONDS handleRequestHeaders ?p
                (sampleEnv emptyBucket) sampleGet) = [?q]"
    and none: "waitUntil (fetch_handler DEFAULT_CACHE_TTL_SECONDS handleRequestHeaders ?p
                (sampleEnv emptyBucket) sampleGet) = []"
    unfolding run forwardToOrigin_failed [OF out] by simp_all
  have failed: "origin ?p ?q = Inl ''connection refused''"
    by (simp add: samplePlatform_origin)
  from origin_failure_502 [OF sent failed] sent none
  show ?thesis by (simp add: fetch_def)
qed

subsection \<open>Responses that forbid storing\<close>

lemmas string_defs = toLowerCase_def toLowerChar_def

text \<open>A handler that sent one request went through the forwarding steps.\<close>

lemma sent_forwarded:
  assumes "origin_fetches (fetch_handler d fh p env request) = [q]"
  obtains u gets tasks where
    "fetch_handler d fh p env request
       = forwardToOrigin d fh p env u request (generateCacheKey (digest p) request) gets tasks"
    "tasks = [] \<or> tasks = [Delete (generateCacheKey (digest p) request)]"
    "q = originRequest fh env u request"
    "outbound p q \<noteq> Unconstructible"
proof (cases "ORIGIN_API_URL env = None \<or> ORIGIN_API_URL env = Some [] \<or> API_CACHE_BUCKET env = None")
  case True
  from fetch_handler_unconfigured [OF this, of d fh p request] assms
  show ?thesis by simp
next
  case False
  then obtain u b where cfg: "ORIGIN_API_URL env = Some u" "u \<noteq> []" "API_CACHE_BUCKET env = Some b"
    by auto
  from fetch_handler_configured [OF cfg, of d fh p request] assms
  obtain gets tasks where
    fwd: "fetch_handler d fh p env request
          = forwardToOrigin d fh p env u request (generateCacheKey (digest p) request) gets tasks"
    and tasks: "tasks = [] \<or> tasks = [Delete (generateCacheKey (digest p) request)]"
    by auto
  from assms have "outbound p (originRequest fh env u request) \<noteq> Unconstructible"
    and "q = originRequest fh env u request"
    unfolding fwd by (simp_all add: forwardToOrigin_fields split: if_splits)
  with fwd tasks show ?thesis using that by blast
qed

text \<open>
  C4. When the response of the origin has a Cache-Control header that contains
  \<^verbatim>\<open>no-store\<close> in any letter case, the handler schedules no \<^verbatim>\<open>put\<close>, whatever the
  request asks for: the eligibility test is false for every method and for the force
  directive too. The force directive stands in for a cacheable method and for nothing
  else.
\<close>

theorem no_store_never_persisted:
  assumes "origin_fetches (fetch_handler d fh p env request) = [q]"
      and "origin p q = Inr originResponse"
      and "headers_get (response_headers originResponse) ''Cache-Control'' = Some cc"
      and "includes_str (toLowerCase cc) ''no-store''"
  shows "filter isPut (waitUntil (fetch_handler d fh p env request)) = []
       \<and> \<not> shouldCache cacheableMethod force (status originResponse) (Some (toLowerCase cc)) pragma
       \<and> shouldCache False True st cacheControl pragma = shouldCache True False st cacheControl pragma"
proof -
  have no: "\<not> shouldCache m f s (Some (toLowerCase cc)) pr" for m f s pr
    using assms(4) by (auto simp: shouldCache_def)
  have unstored: "cacheOriginResponse d p request k originResponse = []" for k
    using assms(3) no by (simp add: cacheOriginResponse_def)
  from assms(1) obtain u gets tasks where
    fwd: "fetch_handler d fh p env request
          = forwardToOrigin d fh p env u request (generateCacheKey (digest p) request) gets tasks"
    and tasks: "tasks = [] \<or> tasks = [Delete (generateCacheKey (digest p) request)]"
    and q: "q = originRequest fh env u request"
    by (rule sent_forwarded)
  from assms(2) q have "outbound p (originRequest fh env u request) = Answers originResponse"
    by (simp add: origin_Inr)
  from forwardToOrigin_answered(1) [OF this]
  have "waitUntil (fetch_handler d fh p env request) = tasks"
    unfolding fwd by (simp add: unstored)
  with tasks have "filter isPut (waitUntil (fetch_handler d fh p env request)) = []"
    by (auto simp: isPut_def)
  moreover have "shouldCache False True st cacheControl pragma
               = shouldCache True False st cacheControl pragma"
    by (simp add: shouldCache_def)
  ultimately show ?thesis using no by simp
qed

theorem no_store_never_persisted_witness:
  "forceCache forceRequest
   \<and> origin_fetches (fetch (samplePlatform (\<lambda>q. Inr noStoreResponse) 1000) (sampleEnv emptyBucket) forceRequest)
      = [originRequest handleRequestHeaders (sampleEnv emptyBucket) ''https://origin.example'' forceRequest]
   \<and> includes_str (toLowerCase ''private, No-Store'') ''no-store''
   \<and> filter isPut (waitUntil (fetch (samplePlatform (\<lambda>q. Inr noStoreResponse) 1000)
         (sampleEnv emptyBucket) forceRequest)) = []
   \<and> \<not> shouldCache False True 200 (Some ''private, no-store'') None"
proof -
  let ?p = "samplePlatform (\<lambda>q. Inr noStoreResponse) 1000"
  let ?q = "originRequest handleRequestHeaders (sampleEnv emptyBucket) ''https://origin.example'' forceRequest"
  have "toLowerCase ''force-cache'' = ''force-cache''"
    by (simp add: string_defs)
  then have force: "forceCache forceRequest" and skip: "\<not> isCacheableMethod forceRequest"
    by (simp_all add: forceCache_def isCacheableMethod_def headers_get_def lower_names
          forceRequest_def sampleGet_def)
  have out: "outbound ?p ?q = Answers noStoreResponse"
    by (simp add: samplePlatform_def)
  have "fetch_handler DEFAULT_CACHE_TTL_SECONDS handleRequestHeaders ?p (sampleEnv emptyBucket) forceRequest
        = forwardToOrigin DEFAULT_CACHE_TTL_SECONDS handleRequestHeaders ?p (sampleEnv emptyBucket)
            ''https://origin.example'' forceRequest (generateCacheKey (digest ?p) forceRequest) [] []"
    using skip
    by (intro fetch_handler_skip [where b = emptyBucket]) (simp_all add: sampleEnv_facts)
  then have sent: "origin_fetches (fetch_handler DEFAULT_CACHE_TTL_SECONDS handleRequestHeaders ?p
                      (sampleEnv emptyBucket) forceRequest) = [?q]"
    using forwardToOrigin_answered(2) [OF out] by simp
  have answer: "origin ?p ?q = Inr noStoreResponse"
    by (simp add: samplePlatform_origin)
  have cc: "headers_get (response_headers noStoreResponse) ''Cache-Control'' = Some ''private, No-Store''"
    by (simp add: headers_get_def lower_names noStoreResponse_def)
  have low: "toLowerCase ''private, No-Store'' = ''private, no-store''"
    by (simp add: string_defs)
  have inc: "includes_str (toLowerCase ''private, No-Store'') ''no-store''"
    by (simp add: low)
  from no_store_never_persisted [OF sent answer cc inc, of False True None 200 None]
  show ?thesis using force sent inc by (simp add: fetch_def low noStoreResponse_def)
qed

subsection \<open>Numbers and their decimal text\<close>

text \<open>
  The expiration is written with \<^verbatim>\<open>toString\<close> and read back with \<^verbatim>\<open>parseInt\<close>: below
  \<open>2^53\<close> the lookup reads the instant that the store step wrote.
\<close>

lemma nearestDouble_safe: "n < 2 ^ 53 \<Longrightarrow> nearestDouble n = n"
  by (simp add: nearestDouble_def)

lemma toNumber_safe:
  assumes "\<bar>i\<bar> < 2 ^ 53"
  shows "toNumber i = Num i"
proof -
  have small: "nat \<bar>i\<bar> < 2 ^ 53"
    using assms by (simp add: nat_less_iff)
  have "(2::nat) ^ 53 < 2 ^ 1024"
    by (rule power_strict_increasing) simp_all
  with small have "nat \<bar>i\<bar> < 2 ^ 1024"
    by (rule less_trans)
  then have finite: "\<not> 2 ^ 1024 \<le> nat \<bar>i\<bar>"
    by (simp only: not_le)
  show ?thesis
    unfolding toNumber_def Let_def nearestDouble_safe [OF small]
    by (simp only: finite if_False) simp
qed

lemma greater_NaN: "\<not> greater x NaN"
  by (cases x) simp_all

lemma NaN_greater: "\<not> greater NaN y"
  by simp

lemma isDigit_cases:
  assumes "isDigit c"
  obtains "c = CHR ''0''" | "c = CHR ''1''" | "c = CHR ''2''" | "c = CHR ''3''" | "c = CHR ''4''"
    | "c = CHR ''5''" | "c = CHR ''6''" | "c = CHR ''7''" | "c = CHR ''8''" | "c = CHR ''9''"
  using assms unfolding isDigit_def by (simp only: set_simps insert_iff empty_iff) blast

lemma below_ten_cases:
  assumes "d < (10::nat)"
  obtains "d = 0" | "d = 1" | "d = 2" | "d = 3" | "d = 4" | "d = 5" | "d = 6" | "d = 7" | "d = 8" | "d = 9"
proof -
  from assms have "d = 0 \<or> d = 1 \<or> d = 2 \<or> d = 3 \<or> d = 4 \<or> d = 5 \<or> d = 6 \<or> d = 7 \<or> d = 8 \<or> d = 9"
    by arith
  then show thesis using that by blast
qed

lemma digitChar_value: "d < 10 \<Longrightarrow> digitValue (digitChar d) = d"
  by (erule below_ten_cases) (simp_all add: digitChar_def digitValue_def)

lemma digitChar_isDigit: "d < 10 \<Longrightarrow> isDigit (digitChar d)"
  by (erule below_ten_cases) (simp_all add: digitChar_def isDigit_def)

lemma isDigit_value: "isDigit c \<Longrightarrow> digitValue c < 10"
  by (erule isDigit_cases) (simp_all add: digitValue_def)

lemma isDigit_plain:
  "isDigit c \<Longrightarrow> c \<noteq> CHR ''-'' \<and> c \<noteq> CHR ''+'' \<and> c \<noteq> CHR ''x'' \<and> c \<noteq> CHR ''X''"
  by (erule isDigit_cases) simp_all

text \<open>No white space starts with a digit or a sign.\<close>

lemma leadingWhiteSpace_digit: "isDigit c \<Longrightarrow> leadingWhiteSpace (c # cs) = 0"
  by (erule isDigit_cases) (simp_all add: leadingWhiteSpace_def whiteSpace_def)

lemma leadingWhiteSpace_minus: "leadingWhiteSpace (CHR ''-'' # cs) = 0"
  by (simp add: leadingWhiteSpace_def whiteSpace_def)

lemma skipWhiteSpace_none: "leadingWhiteSpace s = 0 \<Longrightarrow> skipWhiteSpace s = s"
  by (simp add: skipWhiteSpace.simps [of s])

lemma skipWhiteSpace_some:
  "leadingWhiteSpace s = n \<Longrightarrow> n \<noteq> 0 \<Longrightarrow> skipWhiteSpace s = skipWhiteSpace (drop n s)"
  by (simp add: skipWhiteSpace.simps [of s])

lemma digitsValue_snoc: "digitsValue r (ds @ [c]) = digitsValue r ds * r + digitValue c"
  by (simp add: digitsValue_def)

text \<open>A non-empty run of decimal digits parses to its value, rounded to a double.\<close>

lemma parseMagnitude_digits:
  assumes "ds \<noteq> []" and "\<forall>c \<in> set ds. isDigit c"
  shows "parseMagnitude ds = Some (digitsValue 10 ds)"
proof -
  have nohex: "\<not> startsWith ds ''0x'' \<and> \<not> startsWith ds ''0X''"
  proof (cases ds)
    case Nil
    then show ?thesis by simp
  next
    case outer: (Cons c cs)
    show ?thesis
    proof (cases cs)
      case Nil
      with outer show ?thesis by simp
    next
      case (Cons c' cs')
      with outer assms(2) have "isDigit c'" by simp
      from isDigit_plain [OF this] show ?thesis using outer Cons by simp
    qed
  qed
  have run: "takeWhile (\<lambda>c. digitValue c < 10) ds = ds"
    using assms(2) by (auto intro!: takeWhile_eq_all_conv [THEN iffD2] dest: isDigit_value)
  show ?thesis
    using assms(1) nohex by (simp add: parseMagnitude_def Let_def run)
qed

lemma parseInt_digits:
  assumes "ds \<noteq> []" and "\<forall>c \<in> set ds. isDigit c"
  shows "parseInt ds = toNumber (int (digitsValue 10 ds))"
proof -
  obtain c cs where ds: "ds = c # cs" using assms(1) by (cases ds) auto
  then have c: "isDigit c" using assms(2) by simp
  have "skipWhiteSpace ds = ds"
    unfolding ds using c by (intro skipWhiteSpace_none leadingWhiteSpace_digit)
  then show ?thesis
    using parseMagnitude_digits [OF assms] c ds
    by (simp add: parseInt_def isDigit_plain)
qed

lemma decimal_digits: "decimal n \<noteq> [] \<and> (\<forall>c \<in> set (decimal n). isDigit c)"
proof (induction n rule: decimal.induct)
  case (1 n)
  show ?case
  proof (cases "n < 10")
    case True
    then show ?thesis by (simp add: decimal.simps [of n] digitChar_isDigit)
  next
    case False
    with 1 show ?thesis by (simp add: decimal.simps [of n] digitChar_isDigit)
  qed
qed

lemma decimal_value: "digitsValue 10 (decimal n) = n"
proof (induction n rule: decimal.induct)
  case (1 n)
  show ?case
  proof (cases "n < 10")
    case True
    then show ?thesis by (simp add: decimal.simps [of n] digitsValue_def digitChar_value)
  next
    case False
    with 1 show ?thesis
      by (simp add: decimal.simps [of n] digitsValue_snoc digitChar_value)
  qed
qed

lemma parseInt_toString: "parseInt (toString i) = toNumber i"
proof (cases "i < 0")
  case False
  then show ?thesis
    using parseInt_digits [of "decimal (nat i)"] decimal_digits [of "nat i"]
    by (simp add: toString_def decimal_value)
next
  case True
  have "parseMagnitude (decimal (nat (- i))) = Some (nat (- i))"
    using parseMagnitude_digits [of "decimal (nat (- i))"] decimal_digits [of "nat (- i)"]
    by (simp add: decimal_value)
  then show ?thesis
    using True by (simp add: toString_def parseInt_def skipWhiteSpace_none leadingWhiteSpace_minus)
qed

lemma parseInt_NaN: "parseInt ''NaN'' = NaN"
proof -
  have "skipWhiteSpace ''NaN'' = ''NaN''"
    by (rule skipWhiteSpace_none) (simp add: leadingWhiteSpace_def whiteSpace_def)
  then show ?thesis
    by (simp add: parseInt_def parseMagnitude_def digitValue_def)
qed

text \<open>
  An expiration written sixty seconds ahead has not passed one second later, whatever
  the clock: a clock outside the range of time values writes \<^verbatim>\<open>NaN\<close>, which never
  passes.
\<close>

lemma sixty_seconds:
  "plus_number (getTime t) (times_number (Num 60) (Num 1000))
   = (if \<bar>t\<bar> \<le> 8640000000000000 then Num (t + 60000) else NaN)"
  by (simp add: getTime_def toNumber_safe)

lemma sixty_seconds_fresh:
  "\<not> isExpired (Some (numberToString p (plus_number (getTime t) (times_number (Num 60) (Num 1000)))))
       (getTime (t + 1000))"
proof (cases "\<bar>t\<bar> \<le> 8640000000000000")
  case True
  then have "parseInt (toString (t + 60000)) = Num (t + 60000)"
    unfolding parseInt_toString by (intro toNumber_safe) simp
  moreover from True have "\<bar>t + 60000\<bar> \<le> 9007199254740992"
    by simp
  ultimately show ?thesis
    unfolding sixty_seconds using True by (simp add: numberToString_def isExpired_def getTime_def)
next
  case False
  then show ?thesis
    unfolding sixty_seconds by (simp add: numberToString_def isExpired_def parseInt_NaN greater_NaN)
qed

subsection \<open>Round trip through the store\<close>

lemma runTasks_get_throws: "get_throws (runTasks b ts) = get_throws b"
  unfolding runTasks_def
proof (induction ts arbitrary: b)
  case Nil
  show ?case by simp
next
  case (Cons t ts)
  then show ?case by (cases t) simp_all
qed

lemma runTasks_snoc_Put:
  "objects (runTasks b (ts @ [Put k v meta])) k = Some \<lparr>json = Some v, customMetadata = Some meta\<rparr>"
  by (simp add: runTasks_def)

lemma parseInt_60: "parseInt ''60'' = Num 60"
proof -
  have "parseInt ''60'' = toNumber (int (digitsValue 10 ''60''))"
    by (rule parseInt_digits) (simp_all add: isDigit_def)
  also have "int (digitsValue 10 ''60'') = 60"
    by (simp add: digitsValue_def digitValue_def)
  also have "toNumber 60 = Num 60"
    by (rule toNumber_safe) simp
  finally show ?thesis .
qed

lemma max_age_60:
  "ttl d (Some ''max-age=60'') cacheControl = Num 60"
  by (simp add: ttl_def requestTtl_def parseInt_60)

lemma hello_text: "readText (Some (Bytes ''hello'')) = Some ''hello''"
  by (simp add: readText_def readAll_def utf8Decode_def between_def)

lemma store_hello:
  assumes "isCacheableMethod request"
      and "headers_get (headers request) CACHE_CONTROL_HEADER = Some ''max-age=60''"
      and "status r = 201" and "response_headers r = [''content-type'' \<mapsto> ''text/plain'']"
      and "response_body r = Some (Bytes ''hello'')"
  shows "cacheOriginResponse d p request k r
       = [Put k \<lparr>stored_body = JString ''hello'', stored_status = 201,
                   stored_headers = [''content-type'' \<mapsto> ''text/plain'']\<rparr>
            [''expiration'' \<mapsto> numberToString p
               (plus_number (getTime (time_at_store p)) (times_number (Num 60) (Num 1000)))]]"
proof -
  have low: "toLowerCase ''max-age=60'' = ''max-age=60''"
    by (simp add: toLowerCase_def toLowerChar_def)
  have "\<not> bypassCache request"
    using assms(2) by (simp add: bypassCache_def low)
  moreover have "headers_get (response_headers r) ''Cache-Control'' = None"
    and "headers_get (response_headers r) ''Pragma'' = None"
    using assms(4) by (simp_all add: headers_get_def lower_names)
  ultimately show ?thesis
    using assms
    by (simp add: cacheOriginResponse_def shouldCache_def storeResponse_def hello_text max_age_60
          Let_def del: times_number.simps plus_number.simps)
qed

text \<open>
  C3. A request with \<^verbatim>\<open>cf-cache-control: max-age=60\<close> is forwarded, and the origin
  answers 201 with the header \<^verbatim>\<open>content-type: text/plain\<close> and the body \<^verbatim>\<open>hello\<close>;
  the scheduled tasks run on the bucket. The same request, looked up one second after
  the entry was built, is served from the store: status 201, body \<^verbatim>\<open>hello\<close>, and the
  stored header together with the cache-status header HIT and the cache-key header. No
  request goes to the origin and nothing is scheduled.
\<close>

theorem store_round_trip:
  assumes "ORIGIN_API_URL env = Some originApiUrl" and "originApiUrl \<noteq> []"
      and "API_CACHE_BUCKET env = Some b" and "\<not> get_throws b"
      and "isCacheableMethod request"
      and "headers_get (headers request) CACHE_CONTROL_HEADER = Some ''max-age=60''"
      and "\<not> served_from_cache (fetch_handler d fh p env request)"
      and "origin p (originRequest fh env originApiUrl request)
           = Inr \<lparr>status = 201, statusText = text,
                  response_headers = [''content-type'' \<mapsto> ''text/plain''],
                  response_body = Some (Bytes ''hello'')\<rparr>"
  shows "(let first = fetch_handler d fh p env request;
              later = fetch_handler d fh (p\<lparr>time_at_lookup := time_at_store p + 1000\<rparr>)
                        (env\<lparr>API_CACHE_BUCKET := Some (runTasks b (waitUntil first))\<rparr>) request
          in served_from_cache later
           \<and> status (response later) = 201
           \<and> response_headers (response later)
               = [''content-type'' \<mapsto> ''text/plain'', ''x-cache-status'' \<mapsto> ''HIT'',
                  ''x-cache-key'' \<mapsto> generateCacheKey (digest p) request]
           \<and> response_body (response later) = Some (Bytes ''hello'')
           \<and> origin_fetches later = []
           \<and> waitUntil later = [])"
proof -
  let ?k = "generateCacheKey (digest p) request"
  let ?r = "\<lparr>status = 201, statusText = text,
             response_headers = [''content-type'' \<mapsto> ''text/plain''],
             response_body = Some (Bytes ''hello'')\<rparr>"
  let ?e = "\<lparr>stored_body = JString ''hello'', stored_status = 201,
             stored_headers = [''content-type'' \<mapsto> ''text/plain'']\<rparr>"
  let ?stamp = "numberToString p
                  (plus_number (getTime (time_at_store p)) (times_number (Num 60) (Num 1000)))"
  let ?meta = "[''expiration'' \<mapsto> ?stamp]"
  let ?first = "fetch_handler d fh p env request"
  let ?b = "runTasks b (waitUntil ?first)"
  let ?p = "p\<lparr>time_at_lookup := time_at_store p + 1000\<rparr>"
  let ?env = "env\<lparr>API_CACHE_BUCKET := Some ?b\<rparr>"
  let ?hit = "\<lparr>status = 201, statusText = reason_phrase p 201,
         response_headers = [''content-type'' \<mapsto> ''text/plain'', ''x-cache-status'' \<mapsto> ''HIT'',
                             ''x-cache-key'' \<mapsto> ?k],
         response_body = Some (Bytes ''hello'')\<rparr>"
  have low: "toLowerCase ''max-age=60'' = ''max-age=60''"
    by (simp add: toLowerCase_def toLowerChar_def)
  have nobypass: "\<not> bypassCache request"
    using assms(6) by (simp add: bypassCache_def low)
  from fetch_handler_configured [OF assms(1-3), of d fh p request] assms(7)
  obtain gets tasks where first: "?first = forwardToOrigin d fh p env originApiUrl request ?k gets tasks"
    by blast
  from assms(8) have "outbound p (originRequest fh env originApiUrl request) = Answers ?r"
    by (simp add: origin_Inr)
  from forwardToOrigin_answered(1) [OF this]
  have "waitUntil ?first = tasks @ cacheOriginResponse d p request ?k ?r"
    unfolding first by simp
  also have "cacheOriginResponse d p request ?k ?r = [Put ?k ?e ?meta]"
    using assms(5,6) by (intro store_hello) simp_all
  finally have tasks: "waitUntil ?first = tasks @ [Put ?k ?e ?meta]" .
  have stored: "objects ?b (generateCacheKey (digest ?p) request)
                = Some \<lparr>json = Some ?e, customMetadata = Some ?meta\<rparr>"
    unfolding tasks by (simp add: runTasks_snoc_Put)
  have fresh: "\<not> isExpired (Option.bind (customMetadata \<lparr>json = Some ?e, customMetadata = Some ?meta\<rparr>)
                   (\<lambda>m. m ''expiration'')) (getTime (time_at_lookup ?p))"
    using sixty_seconds_fresh [of p "time_at_store p"] by simp
  have hit: "hitResponse ?p ?e (generateCacheKey (digest ?p) request) = Some ?hit"
    by (simp add: hitResponse_def textResponse_def bodyContent_def nullBodyStatus_def
          headers_get_def headers_set_def lower_names Let_def)
  have "fetch_handler d fh ?p ?env request
        = \<lparr>response = ?hit, served_from_cache = True,
           bucket_gets = [generateCacheKey (digest ?p) request], origin_fetches = [], waitUntil = [],
           thrown = False\<rparr>"
    using assms(1,2,4) nobypass assms(5) stored fresh hit
    by (intro fetch_handler_valid [where b = ?b and originApiUrl = originApiUrl
          and object = "\<lparr>json = Some ?e, customMetadata = Some ?meta\<rparr>" and e = ?e])
       (simp_all add: runTasks_get_throws)
  then show ?thesis
    by (simp add: Let_def)
qed

theorem store_round_trip_witness:
  "isCacheableMethod maxAgeRequest
   \<and> headers_get (headers maxAgeRequest) CACHE_CONTROL_HEADER = Some ''max-age=60''
   \<and> \<not> served_from_cache (fetch helloPlatform (sampleEnv emptyBucket) maxAgeRequest)
   \<and> served_from_cache
        (fetch (helloPlatform\<lparr>time_at_lookup := time_at_store helloPlatform + 1000\<rparr>)
           ((sampleEnv emptyBucket)\<lparr>API_CACHE_BUCKET :=
               Some (runTasks emptyBucket
                       (waitUntil (fetch helloPlatform (sampleEnv emptyBucket) maxAgeRequest)))\<rparr>)
           maxAgeRequest)
   \<and> status (response
        (fetch (helloPlatform\<lparr>time_at_lookup := time_at_store helloPlatform + 1000\<rparr>)
           ((sampleEnv emptyBucket)\<lparr>API_CACHE_BUCKET :=
               Some (runTasks emptyBucket
                       (waitUntil (fetch helloPlatform (sampleEnv emptyBucket) maxAgeRequest)))\<rparr>)
           maxAgeRequest)) = 201
   \<and> response_body (response
        (fetch (helloPlatform\<lparr>time_at_lookup := time_at_store helloPlatform + 1000\<rparr>)
           ((sampleEnv emptyBucket)\<lparr>API_CACHE_BUCKET :=
               Some (runTasks emptyBucket
                       (waitUntil (fetch helloPlatform (sampleEnv emptyBucket) maxAgeRequest)))\<rparr>)
           maxAgeRequest)) = Some (Bytes ''hello'')"
proof -
  have cacheable: "isCacheableMethod maxAgeRequest"
    by (simp add: isCacheableMethod_def maxAgeRequest_def sampleGet_def)
  have header: "headers_get (headers maxAgeRequest) CACHE_CONTROL_HEADER = Some ''max-age=60''"
    by (simp add: headers_get_def lower_names maxAgeRequest_def sampleGet_def)
  have "toLowerCase ''max-age=60'' = ''max-age=60''"
    by (simp add: toLowerCase_def toLowerChar_def)
  then have nobypass: "\<not> bypassCache maxAgeRequest"
    using header by (simp add: bypassCache_def)
  have "fetch_handler DEFAULT_CACHE_TTL_SECONDS handleRequestHeaders helloPlatform (sampleEnv emptyBucket)
          maxAgeRequest
        = forwardToOrigin DEFAULT_CACHE_TTL_SECONDS handleRequestHeaders helloPlatform (sampleEnv emptyBucket)
            ''https://origin.example'' maxAgeRequest (generateCacheKey (digest helloPlatform) maxAgeRequest)
            [generateCacheKey (digest helloPlatform) maxAgeRequest] []"
    using nobypass cacheable
    by (intro fetch_handler_absent [where b = emptyBucket]) (simp_all add: sampleEnv_facts emptyBucket_def)
  then have first: "\<not> served_from_cache (fetch_handler DEFAULT_CACHE_TTL_SECONDS handleRequestHeaders
                        helloPlatform (sampleEnv emptyBucket) maxAgeRequest)"
    by (simp add: forwardToOrigin_fields)
  have answer: "origin helloPlatform q
      = Inr \<lparr>status = 201, statusText = ''Created'',
             response_headers = [''content-type'' \<mapsto> ''text/plain''],
             response_body = Some (Bytes ''hello'')\<rparr>" for q
    by (simp add: helloPlatform_def samplePlatform_origin helloResponse_def)
  have quiet: "\<not> get_throws emptyBucket"
    by (simp add: emptyBucket_def)
  from store_round_trip [OF sampleEnv_facts(1) sampleEnv_facts(3) sampleEnv_facts(2) quiet cacheable header
         first answer]
  show ?thesis
    unfolding fetch_def Let_def using cacheable header first by blast
qed

subsection \<open>One outcome for each request\<close>


text \<open>
  It fails as well when the bindings are there and the outbound request cannot be
  built, as with an origin URL that does not parse: after a miss the handler throws,
  having served nothing and sent nothing.
\<close>

lemma unbuildable_neither_outcome:
  "\<not> served_from_cache (fetch checkingPlatform (unparsableEnv emptyBucket) sampleGet)
   \<and> origin_fetches (fetch checkingPlatform (unparsableEnv emptyBucket) sampleGet) = []
   \<and> thrown (fetch checkingPlatform (unparsableEnv emptyBucket) sampleGet)"
proof -
  have "fetch checkingPlatform (unparsableEnv emptyBucket) sampleGet
        = forwardToOrigin DEFAULT_CACHE_TTL_SECONDS handleRequestHeaders checkingPlatform
            (unparsableEnv emptyBucket) ''not a url'' sampleGet
            (generateCacheKey (digest checkingPlatform) sampleGet)
            [generateCacheKey (digest checkingPlatform) sampleGet] []"
    unfolding fetch_def
    by (intro fetch_handler_absent [where b = emptyBucket])
       (simp_all add: unparsableEnv_facts sampleGet_facts checkingPlatform_facts emptyBucket_def)
  then show ?thesis
    by (simp add: forwardToOrigin_unbuilt checkingPlatform_facts)
qed


subsection \<open>The bypass directive\<close>

text \<open>
  C8, as the claim states it, fails when the origin cannot be reached: the request with
  the bypass directive is sent to the origin, and the 502 response that the caller gets
  has no cache-status header.
\<close>

theorem bypass_without_miss_header:
  "bypassCache bypassRequest
   \<and> origin_fetches (fetch failingPlatform (sampleEnv (bucketWith None)) bypassRequest)
       = [originRequest handleRequestHeaders (sampleEnv (bucketWith None)) ''https://origin.example'' bypassRequest]
   \<and> status (response (fetch failingPlatform (sampleEnv (bucketWith None)) bypassRequest)) = 502
   \<and> headers_get (response_headers (response (fetch failingPlatform (sampleEnv (bucketWith None)) bypassRequest)))
        ''X-Cache-Status'' = None"
proof -
  have "toLowerCase ''No-Cache'' = ''no-cache''"
    by (simp add: toLowerCase_def toLowerChar_def)
  then have bypass: "bypassCache bypassRequest"
    by (simp add: bypassCache_def headers_get_def lower_names bypassRequest_def sampleGet_def)
  then have "fetch failingPlatform (sampleEnv (bucketWith None)) bypassRequest
      = forwardToOrigin DEFAULT_CACHE_TTL_SECONDS handleRequestHeaders failingPlatform (sampleEnv (bucketWith None))
          ''https://origin.example'' bypassRequest (generateCacheKey (digest failingPlatform) bypassRequest) [] []"
    unfolding fetch_def
    by (intro fetch_handler_skip [where b = "bucketWith None"]) (simp_all add: sampleEnv_facts)
  moreover have "outbound failingPlatform q = FetchThrows ''connection refused''" for q
    by (simp add: failingPlatform_def samplePlatform_def)
  ultimately show ?thesis
    using bypass
    by (simp add: forwardToOrigin_failed errorResponse_def headers_get_def lower_names)
qed

text \<open>
  C8, amended. With the origin URL set and the bucket bound, a request with the bypass
  directive reads nothing from the bucket, schedules nothing, and is not served from the
  store. When the outbound request can be built it is sent to the origin once: if the
  outbound fetch throws, the caller gets 502 with no cache-status header; if the origin
  answers with a status and body that the \<^verbatim>\<open>Response\<close> constructor takes, the caller
  gets that status and body with the cache-status header MISS; otherwise the handler
  throws. When the outbound request cannot be built the handler throws and nothing is
  sent. The outcome does not depend on the bucket.
\<close>

theorem bypass_always_forwards:
  assumes "ORIGIN_API_URL env = Some originApiUrl" and "originApiUrl \<noteq> []"
      and "API_CACHE_BUCKET env = Some b"
      and "bypassCache request"
  shows "bucket_gets (fetch_handler d fh p env request) = []
       \<and> waitUntil (fetch_handler d fh p env request) = []
       \<and> \<not> served_from_cache (fetch_handler d fh p env request)
       \<and> (case outbound p (originRequest fh env originApiUrl request) of
            Unconstructible \<Rightarrow>
              origin_fetches (fetch_handler d fh p env request) = []
              \<and> thrown (fetch_handler d fh p env request)
          | FetchThrows message \<Rightarrow>
              origin_fetches (fetch_handler d fh p env request) = [originRequest fh env originApiUrl request]
              \<and> status (response (fetch_handler d fh p env request)) = 502
              \<and> headers_get (response_headers (response (fetch_handler d fh p env request)))
                    ''X-Cache-Status'' = None
              \<and> \<not> thrown (fetch_handler d fh p env request)
          | Answers originResponse \<Rightarrow>
              origin_fetches (fetch_handler d fh p env request) = [originRequest fh env originApiUrl request]
              \<and> (if status originResponse < 200 \<or> status originResponse > 599
                     \<or> (nullBodyStatus (status originResponse) \<and> response_body originResponse \<noteq> None)
                  then thrown (fetch_handler d fh p env request)
                  else headers_get (response_headers (response (fetch_handler d fh p env request)))
                         ''X-Cache-Status'' = Some ''MISS''
                     \<and> status (response (fetch_handler d fh p env request)) = status originResponse
                     \<and> response_body (response (fetch_handler d fh p env request))
                         = response_body originResponse
                     \<and> \<not> thrown (fetch_handler d fh p env request)))
       \<and> fetch p (env\<lparr>API_CACHE_BUCKET := Some b'\<rparr>) request = fetch p env request
       \<and> fetch_older p (env\<lparr>API_CACHE_BUCKET := Some b'\<rparr>) request = fetch_older p env request"
proof -
  let ?k = "generateCacheKey (digest p) request"
  let ?o = "fetch_handler d fh p env request"
  have eq: "fetch_handler d fh p env request
        = forwardToOrigin d fh p env originApiUrl request ?k [] []" for d fh
    using assms by (intro fetch_handler_skip [where b = b]) simp_all
  have eq': "fetch_handler d fh p (env\<lparr>API_CACHE_BUCKET := Some b'\<rparr>) request
        = forwardToOrigin d fh p (env\<lparr>API_CACHE_BUCKET := Some b'\<rparr>) originApiUrl request ?k [] []" for d fh
    using assms by (intro fetch_handler_skip [where b = b']) simp_all
  have "handleRequestHeaders (env\<lparr>API_CACHE_BUCKET := Some b'\<rparr>) = handleRequestHeaders env"
    by (auto simp: handleRequestHeaders_def fun_eq_iff)
  then have same: "fetch p (env\<lparr>API_CACHE_BUCKET := Some b'\<rparr>) request = fetch p env request"
    unfolding fetch_def eq eq' by (simp add: forwardToOrigin_def originRequest_def)
  have "deleteHost (env\<lparr>API_CACHE_BUCKET := Some b'\<rparr>) = deleteHost env"
    by (auto simp: deleteHost_def fun_eq_iff)
  then have older: "fetch_older p (env\<lparr>API_CACHE_BUCKET := Some b'\<rparr>) request = fetch_older p env request"
    unfolding fetch_older_def eq eq' by (simp add: forwardToOrigin_def originRequest_def)
  have unstored: "cacheOriginResponse d p request k r = []" for k r
    using assms(4) by (simp add: cacheOriginResponse_def)
  have quiet: "bucket_gets ?o = [] \<and> waitUntil ?o = [] \<and> \<not> served_from_cache ?o"
    unfolding eq
    by (simp add: forwardToOrigin_def unstored Let_def split: outbound.splits option.splits)
  have sent: "(case outbound p (originRequest fh env originApiUrl request) of
            Unconstructible \<Rightarrow> origin_fetches ?o = [] \<and> thrown ?o
          | FetchThrows message \<Rightarrow>
              origin_fetches ?o = [originRequest fh env originApiUrl request]
              \<and> status (response ?o) = 502
              \<and> headers_get (response_headers (response ?o)) ''X-Cache-Status'' = None
              \<and> \<not> thrown ?o
          | Answers originResponse \<Rightarrow>
              origin_fetches ?o = [originRequest fh env originApiUrl request]
              \<and> (if status originResponse < 200 \<or> status originResponse > 599
                     \<or> (nullBodyStatus (status originResponse) \<and> response_body originResponse \<noteq> None)
                  then thrown ?o
                  else headers_get (response_headers (response ?o)) ''X-Cache-Status'' = Some ''MISS''
                     \<and> status (response ?o) = status originResponse
                     \<and> response_body (response ?o) = response_body originResponse
                     \<and> \<not> thrown ?o))"
  proof (cases "outbound p (originRequest fh env originApiUrl request)")
    case Unconstructible
    then show ?thesis
      unfolding eq by (simp add: forwardToOrigin_unbuilt)
  next
    case (FetchThrows message)
    then show ?thesis
      unfolding eq
      by (simp add: forwardToOrigin_failed errorResponse_def headers_get_def lower_names)
  next
    case (Answers r)
    then show ?thesis
      unfolding eq
      by (simp add: forwardToOrigin_def missResponse_def streamResponse_def headers_get_def
            headers_set_def lower_names Let_def)
  qed
  from quiet sent same older show ?thesis
    by simp
qed

theorem bypass_always_forwards_witness:
  "bypassCache bypassRequest
   \<and> bucket_gets (fetch okPlatform (sampleEnv (bucketWith None)) bypassRequest) = []
   \<and> waitUntil (fetch okPlatform (sampleEnv (bucketWith None)) bypassRequest) = []
   \<and> headers_get (response_headers (response (fetch okPlatform (sampleEnv (bucketWith None)) bypassRequest)))
        ''X-Cache-Status'' = Some ''MISS''"
proof -
  have "toLowerCase ''No-Cache'' = ''no-cache''"
    by (simp add: toLowerCase_def toLowerChar_def)
  then have bypass: "bypassCache bypassRequest"
    by (simp add: bypassCache_def headers_get_def lower_names bypassRequest_def sampleGet_def)
  have "outbound okPlatform q = Answers okResponse" for q
    by (simp add: okPlatform_def samplePlatform_def)
  moreover have "status okResponse = 200" and "\<not> nullBodyStatus 200"
    by (simp_all add: okResponse_def nullBodyStatus_def)
  ultimately show ?thesis
    using bypass_always_forwards [OF sampleEnv_facts(1) sampleEnv_facts(3) sampleEnv_facts(2) bypass,
         of DEFAULT_CACHE_TTL_SECONDS handleRequestHeaders okPlatform] bypass
    by (simp add: fetch_def)
qed

subsection \<open>Expired entries\<close>

text \<open>When an entry counts as expired, by what its expiration parses to.\<close>

lemma parseInt_empty: "parseInt [] = NaN"
proof -
  have "skipWhiteSpace [] = []"
    by (rule skipWhiteSpace_none) (simp add: leadingWhiteSpace_def whiteSpace_def)
  then show ?thesis by (simp add: parseInt_def)
qed

lemma greater_Num:
  "greater (Num n) y \<longleftrightarrow> y = NegInfinity \<or> (\<exists>t. y = Num t \<and> t < n)"
  by (cases y) auto

lemma isExpired_iff:
  "isExpired expiration now \<longleftrightarrow> (\<exists>s. expiration = Some s \<and> greater now (parseInt s))"
  by (cases expiration) (auto simp: isExpired_def parseInt_empty greater_NaN)

lemma isExpired_Num:
  "isExpired expiration (Num n) \<longleftrightarrow>
     (\<exists>s. expiration = Some s \<and> (parseInt s = NegInfinity \<or> (\<exists>t. parseInt s = Num t \<and> t < n)))"
  by (simp add: isExpired_iff greater_Num)


lemma expired_as_miss:
  assumes bucket: "fh (withoutObject env (generateCacheKey (digest p) request)) = fh env"
      and "ORIGIN_API_URL env = Some originApiUrl" and "originApiUrl \<noteq> []"
      and "API_CACHE_BUCKET env = Some b"
      and "\<not> bypassCache request" and "isCacheableMethod request"
      and "\<not> get_throws b"
      and "objects b (generateCacheKey (digest p) request) = Some object"
      and "json object = Some e"
      and "isExpired (Option.bind (customMetadata object) (\<lambda>m. m ''expiration''))
             (getTime (time_at_lookup p))"
  shows "served_from_cache (fetch_handler d fh p env request) = False
       \<and> origin_fetches (fetch_handler d fh p env request)
           = (if outbound p (originRequest fh env originApiUrl request) = Unconstructible then []
              else [originRequest fh env originApiUrl request])
       \<and> fetch_handler d fh p env request
           = (fetch_handler d fh p (withoutObject env (generateCacheKey (digest p) request)) request)
               \<lparr>waitUntil := Delete (generateCacheKey (digest p) request)
                  # waitUntil (fetch_handler d fh p
                      (withoutObject env (generateCacheKey (digest p) request)) request)\<rparr>"
proof -
  let ?k = "generateCacheKey (digest p) request"
  let ?env' = "withoutObject env ?k"
  have hit: "fetch_handler d fh p env request = forwardToOrigin d fh p env originApiUrl request ?k [?k] [Delete ?k]"
    using assms(2-) by (rule fetch_handler_expired)
  have "fetch_handler d fh p ?env' request = forwardToOrigin d fh p ?env' originApiUrl request ?k [?k] []"
    using assms(2-7) by (intro fetch_handler_absent [where b = "b\<lparr>objects := (objects b)(?k := None)\<rparr>"])
      (simp_all add: withoutObject_def)
  also have "\<dots> = forwardToOrigin d fh p env originApiUrl request ?k [?k] []"
    using bucket by (simp add: forwardToOrigin_def originRequest_def)
  finally have miss: "fetch_handler d fh p ?env' request = forwardToOrigin d fh p env originApiUrl request ?k [?k] []" .
  show ?thesis
    unfolding hit miss
    by (simp add: forwardToOrigin_fields forwardToOrigin_tasks [of d fh p env originApiUrl request ?k "[?k]" "[Delete ?k]"])
qed

lemma handleRequestHeaders_withoutObject: "handleRequestHeaders (withoutObject env k) = handleRequestHeaders env"
  by (auto simp: handleRequestHeaders_def withoutObject_def fun_eq_iff)

lemma deleteHost_withoutObject: "deleteHost (withoutObject env k) = deleteHost env"
  by (auto simp: deleteHost_def fun_eq_iff)

lemma parseInt_500: "parseInt ''500'' = Num 500"
proof -
  have "parseInt ''500'' = toNumber (int (digitsValue 10 ''500''))"
    by (rule parseInt_digits) (simp_all add: isDigit_def)
  also have "int (digitsValue 10 ''500'') = 500"
    by (simp add: digitsValue_def digitValue_def)
  also have "toNumber 500 = Num 500"
    by (rule toNumber_safe) simp
  finally show ?thesis .
qed

text \<open>
  C2, as the claim states it, fails when the outbound request cannot be built, as with
  an origin URL that does not parse: the expired entry is not served and its \<^verbatim>\<open>delete\<close>
  is scheduled, but the handler throws before anything is sent to the origin.
\<close>

theorem expired_entry_not_forwarded:
  "ORIGIN_API_URL (unparsableEnv (bucketWith (Some [''expiration'' \<mapsto> ''500'']))) = Some ''not a url''
   \<and> parseInt ''500'' = Num 500
   \<and> getTime (time_at_lookup checkingPlatform) = Num 1000
   \<and> \<not> served_from_cache
        (fetch checkingPlatform (unparsableEnv (bucketWith (Some [''expiration'' \<mapsto> ''500'']))) sampleGet)
   \<and> origin_fetches
        (fetch checkingPlatform (unparsableEnv (bucketWith (Some [''expiration'' \<mapsto> ''500'']))) sampleGet) = []
   \<and> waitUntil
        (fetch checkingPlatform (unparsableEnv (bucketWith (Some [''expiration'' \<mapsto> ''500'']))) sampleGet)
       = [Delete sampleKey]
   \<and> thrown
        (fetch checkingPlatform (unparsableEnv (bucketWith (Some [''expiration'' \<mapsto> ''500'']))) sampleGet)"
proof -
  let ?b = "bucketWith (Some [''expiration'' \<mapsto> ''500''])"
  note key = checkingPlatform_facts(1)
  note clock = checkingPlatform_facts(2)
  have expired: "isExpired (Option.bind (customMetadata
          \<lparr>json = Some sampleEntry, customMetadata = Some [''expiration'' \<mapsto> ''500'']\<rparr>)
             (\<lambda>m. m ''expiration'')) (getTime (time_at_lookup checkingPlatform))"
    by (simp add: clock isExpired_Num parseInt_500)
  have "fetch checkingPlatform (unparsableEnv ?b) sampleGet
        = forwardToOrigin DEFAULT_CACHE_TTL_SECONDS handleRequestHeaders checkingPlatform
            (unparsableEnv ?b) ''not a url'' sampleGet
            (generateCacheKey (digest checkingPlatform) sampleGet)
            [generateCacheKey (digest checkingPlatform) sampleGet]
            [Delete (generateCacheKey (digest checkingPlatform) sampleGet)]"
    unfolding fetch_def
    using expired
    by (intro fetch_handler_expired [where b = ?b and e = sampleEntry
          and object = "\<lparr>json = Some sampleEntry, customMetadata = Some [''expiration'' \<mapsto> ''500'']\<rparr>"])
       (simp_all add: unparsableEnv_facts sampleGet_facts bucketWith_facts key)
  also have "\<dots> = \<lparr>response = error_page checkingPlatform, served_from_cache = False,
            bucket_gets = [generateCacheKey (digest checkingPlatform) sampleGet],
            origin_fetches = [],
            waitUntil = [Delete (generateCacheKey (digest checkingPlatform) sampleGet)],
            thrown = True\<rparr>"
    by (rule forwardToOrigin_unbuilt) (rule checkingPlatform_facts)
  finally show ?thesis
    by (simp add: key parseInt_500 clock unparsableEnv_facts)
qed

text \<open>
  C2, amended. A lookup that finds an entry whose expiration metadata parses to a
  number below the clock reading does not serve it. The handler goes on exactly as it
  does when the entry is missing: the outcome is that of the same request on the bucket
  without the entry, with the \<^verbatim>\<open>delete\<close> of the key handed to \<^verbatim>\<open>ctx.waitUntil\<close> ahead
  of the other tasks and not awaited. So the request goes to the origin once when the
  outbound request can be built, and otherwise the handler throws as it does on a miss.
  It holds for both workers.
\<close>

theorem expired_entry_not_served:
  assumes "ORIGIN_API_URL env = Some originApiUrl" and "originApiUrl \<noteq> []"
      and "API_CACHE_BUCKET env = Some b"
      and "\<not> bypassCache request" and "isCacheableMethod request"
      and "\<not> get_throws b"
      and "objects b (generateCacheKey (digest p) request) = Some object"
      and "json object = Some e"
      and "customMetadata object = Some meta" and "meta ''expiration'' = Some s"
      and "parseInt s = Num t" and "getTime (time_at_lookup p) = Num now" and "t < now"
  shows "\<not> served_from_cache (fetch p env request)
       \<and> origin_fetches (fetch p env request)
           = (if outbound p (originRequest handleRequestHeaders env originApiUrl request) = Unconstructible
              then [] else [originRequest handleRequestHeaders env originApiUrl request])
       \<and> fetch p env request
           = (fetch p (withoutObject env (generateCacheKey (digest p) request)) request)
               \<lparr>waitUntil := Delete (generateCacheKey (digest p) request)
                  # waitUntil (fetch p (withoutObject env (generateCacheKey (digest p) request)) request)\<rparr>
       \<and> \<not> served_from_cache (fetch_older p env request)
       \<and> origin_fetches (fetch_older p env request)
           = (if outbound p (originRequest deleteHost env originApiUrl request) = Unconstructible
              then [] else [originRequest deleteHost env originApiUrl request])
       \<and> fetch_older p env request
           = (fetch_older p (withoutObject env (generateCacheKey (digest p) request)) request)
               \<lparr>waitUntil := Delete (generateCacheKey (digest p) request)
                  # waitUntil (fetch_older p (withoutObject env (generateCacheKey (digest p) request)) request)\<rparr>"
proof -
  let ?k = "generateCacheKey (digest p) request"
  have expired: "isExpired (Option.bind (customMetadata object) (\<lambda>m. m ''expiration''))
                   (getTime (time_at_lookup p))"
    using assms(9-13) by (simp add: isExpired_Num)
  have newer: "served_from_cache (fetch_handler DEFAULT_CACHE_TTL_SECONDS handleRequestHeaders p env request) = False
       \<and> origin_fetches (fetch_handler DEFAULT_CACHE_TTL_SECONDS handleRequestHeaders p env request)
           = (if outbound p (originRequest handleRequestHeaders env originApiUrl request) = Unconstructible
              then [] else [originRequest handleRequestHeaders env originApiUrl request])
       \<and> fetch_handler DEFAULT_CACHE_TTL_SECONDS handleRequestHeaders p env request
           = (fetch_handler DEFAULT_CACHE_TTL_SECONDS handleRequestHeaders p (withoutObject env ?k) request)
               \<lparr>waitUntil := Delete ?k
                  # waitUntil (fetch_handler DEFAULT_CACHE_TTL_SECONDS handleRequestHeaders p
                      (withoutObject env ?k) request)\<rparr>"
    using handleRequestHeaders_withoutObject assms(1-8) expired by (rule expired_as_miss)
  have older: "served_from_cache (fetch_handler 360000 deleteHost p env request) = False
       \<and> origin_fetches (fetch_handler 360000 deleteHost p env request)
           = (if outbound p (originRequest deleteHost env originApiUrl request) = Unconstructible
              then [] else [originRequest deleteHost env originApiUrl request])
       \<and> fetch_handler 360000 deleteHost p env request
           = (fetch_handler 360000 deleteHost p (withoutObject env ?k) request)
               \<lparr>waitUntil := Delete ?k
                  # waitUntil (fetch_handler 360000 deleteHost p (withoutObject env ?k) request)\<rparr>"
    using deleteHost_withoutObject assms(1-8) expired by (rule expired_as_miss)
  from newer older show ?thesis
    unfolding fetch_def fetch_older_def by blast
qed

theorem expired_entry_not_served_witness:
  "objects (bucketWith (Some [''expiration'' \<mapsto> ''500''])) (generateCacheKey (digest okPlatform) sampleGet)
     = Some \<lparr>json = Some sampleEntry, customMetadata = Some [''expiration'' \<mapsto> ''500'']\<rparr>
   \<and> parseInt ''500'' = Num 500
   \<and> getTime (time_at_lookup okPlatform) = Num 1000
   \<and> \<not> served_from_cache (fetch okPlatform (sampleEnv (bucketWith (Some [''expiration'' \<mapsto> ''500'']))) sampleGet)
   \<and> origin_fetches (fetch okPlatform (sampleEnv (bucketWith (Some [''expiration'' \<mapsto> ''500'']))) sampleGet)
       = [originRequest handleRequestHeaders (sampleEnv (bucketWith (Some [''expiration'' \<mapsto> ''500''])))
            ''https://origin.example'' sampleGet]
   \<and> fetch okPlatform (sampleEnv (bucketWith (Some [''expiration'' \<mapsto> ''500'']))) sampleGet
       = (fetch okPlatform
            (withoutObject (sampleEnv (bucketWith (Some [''expiration'' \<mapsto> ''500''])))
               (generateCacheKey (digest okPlatform) sampleGet)) sampleGet)
          \<lparr>waitUntil := Delete (generateCacheKey (digest okPlatform) sampleGet)
             # waitUntil (fetch okPlatform
                 (withoutObject (sampleEnv (bucketWith (Some [''expiration'' \<mapsto> ''500''])))
                    (generateCacheKey (digest okPlatform) sampleGet)) sampleGet)\<rparr>"
proof -
  have key: "generateCacheKey (digest okPlatform) sampleGet = sampleKey"
    by (simp add: okPlatform_def sampleGet_facts)
  have obj: "objects (bucketWith (Some [''expiration'' \<mapsto> ''500''])) (generateCacheKey (digest okPlatform) sampleGet)
     = Some \<lparr>json = Some sampleEntry, customMetadata = Some [''expiration'' \<mapsto> ''500'']\<rparr>"
    by (simp add: key bucketWith_facts)
  have clock: "getTime (time_at_lookup okPlatform) = Num 1000"
    by (simp add: okPlatform_def samplePlatform_def getTime_def)
  have past: "(500::int) < 1000"
    by simp
  have built: "outbound okPlatform q \<noteq> Unconstructible" for q
    by (simp add: okPlatform_def samplePlatform_def)
  have "json \<lparr>json = Some sampleEntry, customMetadata = Some [''expiration'' \<mapsto> ''500'']\<rparr> = Some sampleEntry"
    and "customMetadata \<lparr>json = Some sampleEntry, customMetadata = Some [''expiration'' \<mapsto> ''500'']\<rparr>
          = Some [''expiration'' \<mapsto> ''500'']"
    and "[''expiration'' \<mapsto> ''500''] ''expiration'' = Some ''500''"
    by simp_all
  from expired_entry_not_served [OF sampleEnv_facts(1) sampleEnv_facts(3) sampleEnv_facts(2)
         sampleGet_facts(2) sampleGet_facts(4) bucketWith_facts(1) obj this parseInt_500 clock past]
  have "\<not> served_from_cache (fetch okPlatform (sampleEnv (bucketWith (Some [''expiration'' \<mapsto> ''500'']))) sampleGet)"
    and "origin_fetches (fetch okPlatform (sampleEnv (bucketWith (Some [''expiration'' \<mapsto> ''500'']))) sampleGet)
       = (if outbound okPlatform (originRequest handleRequestHeaders
                (sampleEnv (bucketWith (Some [''expiration'' \<mapsto> ''500''])))
                ''https://origin.example'' sampleGet) = Unconstructible
          then [] else [originRequest handleRequestHeaders (sampleEnv (bucketWith (Some [''expiration'' \<mapsto> ''500''])))
            ''https://origin.example'' sampleGet])"
    and "fetch okPlatform (sampleEnv (bucketWith (Some [''expiration'' \<mapsto> ''500'']))) sampleGet
       = (fetch okPlatform
            (withoutObject (sampleEnv (bucketWith (Some [''expiration'' \<mapsto> ''500''])))
               (generateCacheKey (digest okPlatform) sampleGet)) sampleGet)
          \<lparr>waitUntil := Delete (generateCacheKey (digest okPlatform) sampleGet)
             # waitUntil (fetch okPlatform
                 (withoutObject (sampleEnv (bucketWith (Some [''expiration'' \<mapsto> ''500''])))
                    (generateCacheKey (digest okPlatform) sampleGet)) sampleGet)\<rparr>"
    by blast+
  then show ?thesis
    using obj parseInt_500 clock by (simp only: built if_False simp_thms)
qed

subsection \<open>Entries with no usable expiration\<close>

lemma parseInt_skip: "skipWhiteSpace a = skipWhiteSpace b \<Longrightarrow> parseInt a = parseInt b"
  by (simp add: parseInt_def)

text \<open>A no-break space before the digits is skipped like any other white space.\<close>

lemma parseInt_nbsp: "parseInt (CHR 0xC2 # CHR 0xA0 # ''500'') = Num 500"
proof -
  have "skipWhiteSpace (CHR 0xC2 # CHR 0xA0 # ''500'') = skipWhiteSpace (drop 2 (CHR 0xC2 # CHR 0xA0 # ''500''))"
    by (rule skipWhiteSpace_some) (simp_all add: leadingWhiteSpace_def whiteSpace_def)
  then have "parseInt (CHR 0xC2 # CHR 0xA0 # ''500'') = parseInt ''500''"
    by (intro parseInt_skip) simp
  then show ?thesis
    by (simp add: parseInt_500)
qed








subsection \<open>The time to live\<close>

lemma split_eq_first: "\<exists>rest. split_eq s = takeWhile (\<lambda>c. c \<noteq> CHR ''='') s # rest"
  by (induction s) (auto split: list.splits)

lemma split_eq_append:
  "CHR ''='' \<notin> set pre \<Longrightarrow> split_eq (pre @ CHR ''='' # s) = pre # split_eq s"
  by (induction pre) auto

lemma startsWith_append: "startsWith s pre \<Longrightarrow> s = pre @ drop (length pre) s"
  by (induction s pre rule: startsWith.induct) simp_all

text \<open>Element 1 of the split of a header that starts with \<^verbatim>\<open>max-age=\<close>.\<close>

lemma split_max_age:
  assumes "startsWith hv ''max-age=''"
  shows "\<exists>rest. split_eq hv = ''max-age'' # takeWhile (\<lambda>c. c \<noteq> CHR ''='') (drop 8 hv) # rest"
proof -
  have len: "length ''max-age='' = 8"
    by simp
  from startsWith_append [OF assms, unfolded len] have "hv = ''max-age='' @ drop 8 hv" .
  then have "split_eq hv = split_eq (''max-age'' @ CHR ''='' # drop 8 hv)"
    by simp
  also have "\<dots> = ''max-age'' # split_eq (drop 8 hv)"
    by (rule split_eq_append) simp
  finally have "split_eq hv = ''max-age'' # split_eq (drop 8 hv)" .
  then show ?thesis
    using split_eq_first [of "drop 8 hv"] by auto
qed

lemma requestTtl_max_age:
  assumes "startsWith hv ''max-age=''"
  shows "requestTtl d hv
         = (case parseInt (takeWhile (\<lambda>c. c \<noteq> CHR ''='') (drop 8 hv)) of
              NaN \<Rightarrow> Num d
            | Num t \<Rightarrow> if t = 0 then Num d else Num t
            | infinity \<Rightarrow> infinity)"
  using split_max_age [OF assms] by (auto simp: requestTtl_def)

lemma requestTtl_not_NaN: "requestTtl d hv \<noteq> NaN"
  by (simp add: requestTtl_def split: list.splits number.splits)

lemma toNumber_not_NaN: "toNumber i \<noteq> NaN"
  by (simp add: toNumber_def Let_def)

lemma matchMaxAge_Some:
  "matchMaxAge cc = Some ds \<Longrightarrow>
     ds \<noteq> [] \<and> (\<forall>c \<in> set ds. isDigit c) \<and> cc \<noteq> [] \<and> includes_str cc ''max-age=''"
proof (induction cc)
  case Nil
  then show ?case by simp
next
  case (Cons c cs)
  show ?case
  proof (cases "startsWith (c # cs) ''max-age='' \<and> takeWhile isDigit (drop 8 (c # cs)) \<noteq> []")
    case True
    with Cons.prems have "ds = takeWhile isDigit (drop 8 (c # cs))"
      by simp
    with True show ?thesis
      by (auto dest: set_takeWhileD)
  next
    case False
    with Cons.prems have "matchMaxAge cs = Some ds"
      by (simp split: if_splits)
    from Cons.IH [OF this] show ?thesis
      by simp
  qed
qed

lemma responseTtl_match:
  "responseTtl d cacheControl
   = (case Option.bind cacheControl matchMaxAge of
        None \<Rightarrow> Num d
      | Some ds \<Rightarrow> toNumber (int (digitsValue 10 ds)))"
proof (cases cacheControl)
  case None
  then show ?thesis by (simp add: responseTtl_def)
next
  case (Some cc)
  show ?thesis
  proof (cases "matchMaxAge cc")
    case None
    with Some show ?thesis by (simp add: responseTtl_def)
  next
    case (Some ds)
    from matchMaxAge_Some [OF this] parseInt_digits [of ds]
    show ?thesis
      using Some \<open>cacheControl = Some cc\<close> by (simp add: responseTtl_def)
  qed
qed

lemma ttl_not_NaN: "ttl d customTtlHeader cacheControl \<noteq> NaN"
  by (simp add: ttl_def requestTtl_not_NaN responseTtl_match toNumber_not_NaN split: option.splits)

text \<open>Small numbers parse to themselves.\<close>

lemma parseInt_small:
  assumes "ds \<noteq> []" and "\<forall>c \<in> set ds. isDigit c" and "digitsValue 10 ds < 2 ^ 53"
  shows "parseInt ds = Num (int (digitsValue 10 ds))"
proof -
  have "int (digitsValue 10 ds) < int (2 ^ 53)"
    using assms(3) by (simp only: of_nat_less_iff)
  then have "\<bar>int (digitsValue 10 ds)\<bar> < 2 ^ 53"
    by simp
  then show ?thesis
    unfolding parseInt_digits [OF assms(1,2)] by (rule toNumber_safe)
qed

text \<open>
  The expiration written for a TTL of \<open>t\<close> seconds at a clock reading \<open>c\<close>, while the
  numbers stay below \<open>2^53\<close>.
\<close>

lemma expiration_safe:
  assumes "\<bar>c\<bar> \<le> 8640000000000000" and "\<bar>t * 1000\<bar> < 2 ^ 53" and "\<bar>c + t * 1000\<bar> < 2 ^ 53"
  shows "numberToString p (plus_number (getTime c) (times_number (Num t) (Num 1000)))
         = toString (c + t * 1000)"
proof -
  have "times_number (Num t) (Num 1000) = Num (t * 1000)"
    using assms(2) by (simp add: toNumber_safe)
  moreover have "plus_number (Num c) (Num (t * 1000)) = Num (c + t * 1000)"
    using assms(3) by (simp add: toNumber_safe)
  ultimately show ?thesis
    using assms(1,3) by (simp add: getTime_def numberToString_def)
qed

text \<open>
  Beyond \<open>2^53\<close> the numbers are rounded as the doubles of the worker are:
  \<^verbatim>\<open>parseInt('9007199254740993')\<close> is 9007199254740992, and a TTL of \<open>10^18\<close> seconds
  written at the clock reading 1000 gives the text of \<open>10^21\<close>. A byte that is not UTF-8
  is stored as the replacement character.
\<close>

lemma bitLength_numeral:
  "bitLength 0 = 0"
  "bitLength (Suc 0) = Suc 0"
  "bitLength (numeral (Num.Bit0 n)) = Suc (bitLength (numeral n))"
  "bitLength (numeral (Num.Bit1 n)) = Suc (bitLength (numeral n))"
  by (simp_all add: bitLength.simps [of 0] bitLength.simps [of "Suc 0"]
        bitLength.simps [of "numeral (Num.Bit0 n)"] bitLength.simps [of "numeral (Num.Bit1 n)"]
        numeral_Bit0_div_2 numeral_Bit1_div_2)

lemma parseInt_beyond_safe: "parseInt ''9007199254740993'' = Num 9007199254740992"
proof -
  have "parseInt ''9007199254740993'' = toNumber (int (digitsValue 10 ''9007199254740993''))"
    by (rule parseInt_digits) (simp_all add: isDigit_def)
  also have "int (digitsValue 10 ''9007199254740993'') = 9007199254740993"
    by (simp add: digitsValue_def digitValue_def)
  also have "toNumber 9007199254740993 = Num 9007199254740992"
    by (simp add: toNumber_def nearestDouble_def bitLength_numeral Let_def)
  finally show ?thesis .
qed

lemma expiration_beyond_safe:
  "numberToString p (plus_number (getTime 1000) (times_number (Num 1000000000000000000) (Num 1000)))
   = unsafe_text p 1000000000000000000000"
proof -
  have "times_number (Num 1000000000000000000) (Num 1000) = Num 1000000000000000000000"
    by (simp add: toNumber_def nearestDouble_def bitLength_numeral Let_def)
  moreover have "plus_number (Num 1000) (Num 1000000000000000000000) = Num 1000000000000000000000"
    by (simp add: toNumber_def nearestDouble_def bitLength_numeral Let_def)
  ultimately show ?thesis
    by (simp add: getTime_def numberToString_def)
qed

lemma decode_invalid_byte: "utf8Decode [CHR 0xFF] = replacement"
  by (simp add: utf8Decode_def between_def)

lemma parseInt_0: "parseInt ''0'' = Num 0"
proof -
  have "parseInt ''0'' = toNumber (int (digitsValue 10 ''0''))"
    by (rule parseInt_digits) (simp_all add: isDigit_def)
  also have "int (digitsValue 10 ''0'') = 0"
    by (simp add: digitsValue_def digitValue_def)
  also have "toNumber 0 = Num 0"
    by (rule toNumber_safe) simp
  finally show ?thesis .
qed

lemma parseInt_abc: "parseInt ''abc'' = NaN"
proof -
  have "skipWhiteSpace ''abc'' = ''abc''"
    by (rule skipWhiteSpace_none) (simp add: leadingWhiteSpace_def whiteSpace_def)
  then show ?thesis
    by (simp add: parseInt_def parseMagnitude_def digitValue_def)
qed

lemma parseInt_minus_5: "parseInt ''-5'' = Num (- 5)"
proof -
  have "skipWhiteSpace ''-5'' = ''-5''"
    by (rule skipWhiteSpace_none) (rule leadingWhiteSpace_minus)
  moreover have "parseMagnitude ''5'' = Some 5"
    by (simp add: parseMagnitude_def digitValue_def digitsValue_def)
  moreover have "toNumber (- 5) = Num (- 5)"
    by (rule toNumber_safe) simp
  ultimately show ?thesis
    by (simp add: parseInt_def)
qed

lemma parseInt_120: "parseInt ''120'' = Num 120"
proof -
  have "parseInt ''120'' = toNumber (int (digitsValue 10 ''120''))"
    by (rule parseInt_digits) (simp_all add: isDigit_def)
  also have "int (digitsValue 10 ''120'') = 120"
    by (simp add: digitsValue_def digitValue_def)
  also have "toNumber 120 = Num 120"
    by (rule toNumber_safe) simp
  finally show ?thesis .
qed

text \<open>
  C7, as the claim states it, fails. A request header \<^verbatim>\<open>max-age=abc\<close> does not parse, and
  the TTL is then the default although the response carries \<^verbatim>\<open>max-age=120\<close>, which
  alone would give 120: the response is consulted only when the request header does not
  start with \<^verbatim>\<open>max-age=\<close>. And a request header \<^verbatim>\<open>max-age=-5\<close>, which is not a positive
  integer, gives the TTL -5.
\<close>

theorem ttl_counterexample:
  "ttl DEFAULT_CACHE_TTL_SECONDS (Some ''max-age=abc'') (Some ''max-age=120'') = Num DEFAULT_CACHE_TTL_SECONDS
   \<and> responseTtl DEFAULT_CACHE_TTL_SECONDS (Some ''max-age=120'') = Num 120
   \<and> ttl DEFAULT_CACHE_TTL_SECONDS (Some ''max-age=-5'') None = Num (- 5)"
  by (simp add: ttl_def requestTtl_def responseTtl_def parseInt_abc parseInt_minus_5 parseInt_120
        isDigit_def)

text \<open>
  C7, amended. When the request header starts with \<^verbatim>\<open>max-age=\<close>, with \<open>N\<close> the text up
  to the next equals sign: the TTL is the number that \<open>N\<close> parses to when that is a
  positive integer, and the default when \<open>N\<close> does not parse or parses to zero; the
  response is not consulted. When the request header is missing or does not start with
  \<^verbatim>\<open>max-age=\<close>: the TTL is the number after the first \<^verbatim>\<open>max-age=\<close> of the response's
  lower-cased Cache-Control that a digit follows, and the default when there is none. A
  run of digits parses to its value, exactly below \<open>2^53\<close> and rounded to the nearest
  double above. The entry that is stored carries the body as decoded text, and the
  expiration computed from this TTL and the clock: the decimal digits of the clock
  reading plus a thousand times the TTL while these stay below \<open>2^53\<close>. The TTL is never
  \<^verbatim>\<open>NaN\<close>.
\<close>

theorem ttl_precedence:
  "(customTtlHeader = Some hv \<and> startsWith hv ''max-age=''
      \<and> parseInt (takeWhile (\<lambda>c. c \<noteq> CHR ''='') (drop 8 hv)) = Num t \<and> 0 < t
      \<longrightarrow> ttl d customTtlHeader cacheControl = Num t)
   \<and> (customTtlHeader = Some hv \<and> startsWith hv ''max-age=''
      \<and> (parseInt (takeWhile (\<lambda>c. c \<noteq> CHR ''='') (drop 8 hv)) = NaN
         \<or> parseInt (takeWhile (\<lambda>c. c \<noteq> CHR ''='') (drop 8 hv)) = Num 0)
      \<longrightarrow> ttl d customTtlHeader cacheControl = Num d)
   \<and> (customTtlHeader = None \<or> (customTtlHeader = Some hv \<and> \<not> startsWith hv ''max-age='')
      \<longrightarrow> ttl d customTtlHeader cacheControl
          = (case Option.bind cacheControl matchMaxAge of
               None \<Rightarrow> Num d
             | Some ds \<Rightarrow> parseInt ds))
   \<and> (ds \<noteq> [] \<and> (\<forall>c \<in> set ds. isDigit c)
      \<longrightarrow> parseInt ds = toNumber (int (digitsValue 10 ds))
        \<and> (digitsValue 10 ds < 2 ^ 53 \<longrightarrow> parseInt ds = Num (int (digitsValue 10 ds))))
   \<and> (shouldCache (isCacheableMethod request) (forceCache request) (status r)
          (map_option toLowerCase (headers_get (response_headers r) ''Cache-Control''))
          (map_option toLowerCase (headers_get (response_headers r) ''Pragma''))
        \<and> \<not> bypassCache request \<and> readAll (response_body r) = Some bytes
      \<longrightarrow> cacheOriginResponse d p request k r
          = [Put k \<lparr>stored_body = JString (utf8Decode bytes), stored_status = status r,
                      stored_headers = response_headers r\<rparr>
               [''expiration'' \<mapsto> numberToString p
                  (plus_number (getTime (time_at_store p))
                     (times_number
                        (ttl d (headers_get (headers request) CACHE_CONTROL_HEADER)
                           (map_option toLowerCase (headers_get (response_headers r) ''Cache-Control'')))
                        (Num 1000)))]])
   \<and> (\<bar>c\<bar> \<le> 8640000000000000 \<and> \<bar>s * 1000\<bar> < 2 ^ 53 \<and> \<bar>c + s * 1000\<bar> < 2 ^ 53
      \<longrightarrow> numberToString p (plus_number (getTime c) (times_number (Num s) (Num 1000)))
          = toString (c + s * 1000))
   \<and> ttl d customTtlHeader cacheControl \<noteq> NaN"
proof (intro conjI impI)
  assume "customTtlHeader = Some hv \<and> startsWith hv ''max-age=''
      \<and> parseInt (takeWhile (\<lambda>c. c \<noteq> CHR ''='') (drop 8 hv)) = Num t \<and> 0 < t"
  then show "ttl d customTtlHeader cacheControl = Num t"
    by (auto simp: ttl_def requestTtl_max_age)
next
  assume "customTtlHeader = Some hv \<and> startsWith hv ''max-age=''
      \<and> (parseInt (takeWhile (\<lambda>c. c \<noteq> CHR ''='') (drop 8 hv)) = NaN
         \<or> parseInt (takeWhile (\<lambda>c. c \<noteq> CHR ''='') (drop 8 hv)) = Num 0)"
  then show "ttl d customTtlHeader cacheControl = Num d"
    by (auto simp: ttl_def requestTtl_max_age)
next
  assume "customTtlHeader = None \<or> (customTtlHeader = Some hv \<and> \<not> startsWith hv ''max-age='')"
  moreover have "responseTtl d cacheControl
          = (case Option.bind cacheControl matchMaxAge of
               None \<Rightarrow> Num d
             | Some ds \<Rightarrow> parseInt ds)"
    by (cases cacheControl) (auto simp: responseTtl_def dest: matchMaxAge_Some split: option.splits)
  ultimately show "ttl d customTtlHeader cacheControl
          = (case Option.bind cacheControl matchMaxAge of
               None \<Rightarrow> Num d
             | Some ds \<Rightarrow> parseInt ds)"
    by (auto simp: ttl_def)
next
  assume "ds \<noteq> [] \<and> (\<forall>c \<in> set ds. isDigit c)"
  then show "parseInt ds = toNumber (int (digitsValue 10 ds))"
    by (simp add: parseInt_digits)
next
  assume "ds \<noteq> [] \<and> (\<forall>c \<in> set ds. isDigit c)" and "digitsValue 10 ds < 2 ^ 53"
  then show "parseInt ds = Num (int (digitsValue 10 ds))"
    by (simp add: parseInt_small)
next
  assume "shouldCache (isCacheableMethod request) (forceCache request) (status r)
          (map_option toLowerCase (headers_get (response_headers r) ''Cache-Control''))
          (map_option toLowerCase (headers_get (response_headers r) ''Pragma''))
        \<and> \<not> bypassCache request \<and> readAll (response_body r) = Some bytes"
  then show "cacheOriginResponse d p request k r
          = [Put k \<lparr>stored_body = JString (utf8Decode bytes), stored_status = status r,
                      stored_headers = response_headers r\<rparr>
               [''expiration'' \<mapsto> numberToString p
                  (plus_number (getTime (time_at_store p))
                     (times_number
                        (ttl d (headers_get (headers request) CACHE_CONTROL_HEADER)
                           (map_option toLowerCase (headers_get (response_headers r) ''Cache-Control'')))
                        (Num 1000)))]]"
    by (simp add: cacheOriginResponse_def storeResponse_def readText_def Let_def)
next
  assume "\<bar>c\<bar> \<le> 8640000000000000 \<and> \<bar>s * 1000\<bar> < 2 ^ 53 \<and> \<bar>c + s * 1000\<bar> < 2 ^ 53"
  then show "numberToString p (plus_number (getTime c) (times_number (Num s) (Num 1000)))
          = toString (c + s * 1000)"
    by (intro expiration_safe) simp_all
next
  show "ttl d customTtlHeader cacheControl \<noteq> NaN"
    by (rule ttl_not_NaN)
qed

theorem ttl_precedence_witness:
  "startsWith ''max-age=60'' ''max-age=''
   \<and> parseInt (takeWhile (\<lambda>c. c \<noteq> CHR ''='') (drop 8 ''max-age=60'')) = Num 60
   \<and> ttl DEFAULT_CACHE_TTL_SECONDS (Some ''max-age=60'') (Some ''max-age=120'') = Num 60
   \<and> parseInt (takeWhile (\<lambda>c. c \<noteq> CHR ''='') (drop 8 ''max-age=0'')) = Num 0
   \<and> ttl DEFAULT_CACHE_TTL_SECONDS (Some ''max-age=0'') (Some ''max-age=120'') = Num DEFAULT_CACHE_TTL_SECONDS
   \<and> matchMaxAge ''public, max-age=120'' = Some ''120''
   \<and> ttl DEFAULT_CACHE_TTL_SECONDS None (Some ''public, max-age=120'') = Num 120
   \<and> numberToString okPlatform (plus_number (getTime 1000) (times_number (Num 60) (Num 1000)))
       = toString 61000"
proof -
  have sixty: "startsWith ''max-age=60'' ''max-age=''"
    "parseInt (takeWhile (\<lambda>c. c \<noteq> CHR ''='') (drop 8 ''max-age=60'')) = Num 60"
    by (simp_all add: parseInt_60)
  have zero: "startsWith ''max-age=0'' ''max-age=''"
    "parseInt (takeWhile (\<lambda>c. c \<noteq> CHR ''='') (drop 8 ''max-age=0'')) = Num 0"
    by (simp_all add: parseInt_0)
  have found: "matchMaxAge ''public, max-age=120'' = Some ''120''"
    by (simp add: isDigit_def)
  from ttl_precedence [of "Some ''max-age=60''" "''max-age=60''" 60 DEFAULT_CACHE_TTL_SECONDS
         "Some ''max-age=120''"] sixty
  have first: "ttl DEFAULT_CACHE_TTL_SECONDS (Some ''max-age=60'') (Some ''max-age=120'') = Num 60"
    by simp
  from ttl_precedence [of "Some ''max-age=0''" "''max-age=0''" 0 DEFAULT_CACHE_TTL_SECONDS
         "Some ''max-age=120''"] zero
  have second: "ttl DEFAULT_CACHE_TTL_SECONDS (Some ''max-age=0'') (Some ''max-age=120'')
                = Num DEFAULT_CACHE_TTL_SECONDS"
    by simp
  from ttl_precedence [of None "[]" 0 DEFAULT_CACHE_TTL_SECONDS "Some ''public, max-age=120''"]
  have "ttl DEFAULT_CACHE_TTL_SECONDS None (Some ''public, max-age=120'')
        = (case Option.bind (Some ''public, max-age=120'') matchMaxAge of
             None \<Rightarrow> Num DEFAULT_CACHE_TTL_SECONDS
           | Some ds \<Rightarrow> parseInt ds)"
    by simp
  then have third: "ttl DEFAULT_CACHE_TTL_SECONDS None (Some ''public, max-age=120'') = Num 120"
    by (simp add: isDigit_def parseInt_120)
  have "\<bar>1000::int\<bar> \<le> 8640000000000000 \<and> \<bar>(60::int) * 1000\<bar> < 2 ^ 53 \<and> \<bar>(1000::int) + 60 * 1000\<bar> < 2 ^ 53"
    by simp
  with ttl_precedence [where c = 1000 and s = 60 and p = okPlatform]
  have "numberToString okPlatform (plus_number (getTime 1000) (times_number (Num 60) (Num 1000)))
        = toString (1000 + 60 * 1000)"
    by blast
  then have fourth: "numberToString okPlatform (plus_number (getTime 1000) (times_number (Num 60) (Num 1000)))
        = toString 61000"
    by simp
  show ?thesis
    using sixty zero found first second third fourth by blast
qed

end
